theory Spec2Isabelle
  imports Main "HOL-Library.Word"
begin

unbundle bit_operations_syntax

section \<open>Instructions, operands and opcodes\<close>

text \<open>
  The embedding follows \<^verbatim>\<open>X86ATTInstPrinter.cpp\<close>. An \<^verbatim>\<open>int64_t\<close> immediate is a
  \<open>64 word\<close>, read as signed with \<open>sint\<close>; register ids and operand indices
  (\<^verbatim>\<open>unsigned\<close>) are \<open>nat\<close>.
\<close>

type_synonym int64 = "64 word"

text \<open>
  A symbolic expression. The printer never looks inside one: it hands it to the
  expression renderer (\<^verbatim>\<open>MCExpr::print\<close>), a parameter of the model below.
\<close>

datatype MCExpr = MCSymbolRefExpr string | MCConstantExpr int64

text \<open>
  Modelled from the spec: \<^verbatim>\<open>MCOperand\<close> (\<^verbatim>\<open>MCInst.h\<close> is not among the sources), the
  tagged union of section 3 over register, immediate and expression. The assertions of
  \<^verbatim>\<open>printOperand\<close> and \<^verbatim>\<open>printMemReference\<close> speak of operands of yet another kind, so
  the remaining tags are kept as constructors; their payloads are never read here.
\<close>

datatype MCOperand =
    Invalid
  | Reg nat
  | Imm int64
  | FPImm
  | Expr MCExpr
  | Inst

text \<open>
  The opcodes the source names. \<^verbatim>\<open>X86::VPCOM<elt><form>\<close> is \<open>VPCOM elt form\<close> and
  \<^verbatim>\<open>X86::VPCMP<elt><len><form>\<close> is \<open>VPCMP elt len form\<close>, so \<^verbatim>\<open>X86::VPCMPUDZ256rmibk\<close>
  is \<open>VPCMP Elt_UD Len_Z256 F_rmibk\<close>. Every other opcode of the generated enumeration is
  \<open>OtherOpcode n\<close>.
\<close>

datatype EltKind = Elt_B | Elt_D | Elt_Q | Elt_UB | Elt_UD | Elt_UQ | Elt_UW | Elt_W

datatype VecLen = Len_Z128 | Len_Z256 | Len_Z

datatype VPCOMForm = F_mi | F_ri

datatype VPCMPForm = F_rmi | F_rri | F_rmik | F_rrik | F_rmib | F_rmibk

datatype X86Opcode =
    CALLpcrel32
  | DATA16_PREFIX
  | VPCOM EltKind VPCOMForm
  | VPCMP EltKind VecLen VPCMPForm
  | OtherOpcode nat

record MCInst =
  Opcode :: X86Opcode
  Flags :: nat
  Operands :: "MCOperand list"

datatype X86Feature = Mode64Bit | Mode32Bit | Mode16Bit | OtherFeature nat

text \<open>The subtarget: \<^verbatim>\<open>STI.getFeatureBits()[F]\<close> is \<open>F \<in> FeatureBits STI\<close>.\<close>

record MCSubtargetInfo =
  FeatureBits :: "X86Feature set"

section \<open>Aborts\<close>

text \<open>
  A failed \<^verbatim>\<open>assert\<close> ends the process with its diagnostic. It is the \<open>Inl\<close> branch of
  every result; the text is the asserted condition's message. The embedding is of a build
  with assertions enabled: with assertions compiled out (\<^verbatim>\<open>NDEBUG\<close>) the source goes on
  past a failed assertion into undefined behaviour, which is not described here.
\<close>

datatype abort = AssertionFailed string

definition bindA :: "abort + 'a \<Rightarrow> ('a \<Rightarrow> abort + 'b) \<Rightarrow> abort + 'b" where
  "bindA m f = (case m of Inl e \<Rightarrow> Inl e | Inr x \<Rightarrow> f x)"

definition getNumOperands :: "MCInst \<Rightarrow> nat" where
  "getNumOperands MI = length (Operands MI)"

text \<open>
  \<^verbatim>\<open>MI->getOperand(i)\<close> indexes a \<^verbatim>\<open>SmallVector\<close>, whose \<^verbatim>\<open>operator[]\<close> asserts
  \<^verbatim>\<open>idx < size()\<close>.
\<close>

definition getOperand :: "MCInst \<Rightarrow> nat \<Rightarrow> abort + MCOperand" where
  "getOperand MI i =
     (if i < length (Operands MI) then Inr (Operands MI ! i)
      else Inl (AssertionFailed ''idx < size()''))"

fun isReg :: "MCOperand \<Rightarrow> bool" where
  "isReg (Reg r) = True"
| "isReg _ = False"

fun isImm :: "MCOperand \<Rightarrow> bool" where
  "isImm (Imm v) = True"
| "isImm _ = False"

fun isExpr :: "MCOperand \<Rightarrow> bool" where
  "isExpr (Expr e) = True"
| "isExpr _ = False"

text \<open>
  Modelled from the spec: the accessors of \<^verbatim>\<open>MCOperand\<close> (\<^verbatim>\<open>MCInst.h\<close>). Reading an
  operand through the accessor of another kind is a contract violation (section 7) and
  aborts with a diagnostic.
\<close>

fun getReg :: "MCOperand \<Rightarrow> abort + nat" where
  "getReg (Reg r) = Inr r"
| "getReg _ = Inl (AssertionFailed ''This is not a register operand!'')"

fun getImm :: "MCOperand \<Rightarrow> abort + int64" where
  "getImm (Imm v) = Inr v"
| "getImm _ = Inl (AssertionFailed ''This is not an immediate'')"

section \<open>The printer's collaborators\<close>

text \<open>
  The constants of \<^verbatim>\<open>X86II\<close> (\<^verbatim>\<open>X86BaseInfo.h\<close>, not among the sources) that the printer
  tests \<^verbatim>\<open>Desc.TSFlags\<close> against. They are parameters.
\<close>

record X86II =
  FormMask :: "64 word"
  MRMSrcMem :: "64 word"
  EVEX_K :: "64 word"
  EVEX_B :: "64 word"
  VEX_W :: "64 word"
  VEX_L :: "64 word"
  EVEX_L2 :: "64 word"

text \<open>
  Modelled from the spec: the offsets of the five sub-operands of a memory operand
  (\<^verbatim>\<open>X86::AddrBaseReg\<close> and its siblings, \<^verbatim>\<open>X86BaseInfo.h\<close>): base at +0, scale at +1,
  index at +2, displacement at +3, segment at +4 (section 3).
\<close>

definition AddrBaseReg :: nat where "AddrBaseReg = 0"
definition AddrScaleAmt :: nat where "AddrScaleAmt = 1"
definition AddrIndexReg :: nat where "AddrIndexReg = 2"
definition AddrDisp :: nat where "AddrDisp = 3"
definition AddrSegmentReg :: nat where "AddrSegmentReg = 4"

text \<open>
  A fragment of a generated print template: literal text, or a call of one of the operand
  formatters at an operand index. \<open>CallCommon f\<close> is a call of a formatter of the shared
  base class (\<^verbatim>\<open>X86InstPrinterCommon\<close>), which writes the text \<open>f MI\<close> to the output
  stream or aborts.
\<close>

datatype AsmFragment =
    Literal string
  | CallPrintOperand nat
  | CallPrintMemReference nat
  | CallPrintSrcIdx nat
  | CallPrintDstIdx nat
  | CallPrintMemOffset nat
  | CallPrintU8Imm nat
  | CallPrintSTiRegOperand nat
  | CallCommon "MCInst \<Rightarrow> abort + string"

text \<open>
  Everything the printer consults and this file does not define: the markup and
  immediate-format switches and the hexadecimal formatter of \<^verbatim>\<open>MCInstPrinter\<close>, the
  generated register-name table, the expression renderer, the descriptor table
  (\<^verbatim>\<open>MII.get(Opcode).TSFlags\<close>), the mnemonic printers, flag-prefix printer and
  pc-relative formatter of the shared base class (by the text they write), the
  opcode-specific comment generator (by the text it writes to the comment stream and the
  flag it returns), the annotation printer (by the text it writes to the output stream
  and to the comment stream, given the annotation and whether a comment stream is
  attached), the generated alias table and per-opcode templates, and the id of the
  register \<^verbatim>\<open>X86::ST0\<close>.
\<close>

record PrinterConfig =
  UseMarkup :: bool
  PrintImmHex :: bool
  formatHex :: "int64 \<Rightarrow> string"
  getRegisterName :: "nat \<Rightarrow> string"
  printExpr :: "MCExpr \<Rightarrow> string"
  TSFlags :: "X86Opcode \<Rightarrow> 64 word"
  X86II_consts :: X86II
  printVPCOMMnemonic :: "MCInst \<Rightarrow> string"
  printVPCMPMnemonic :: "MCInst \<Rightarrow> string"
  printInstFlags :: "MCInst \<Rightarrow> string"
  printPCRelImm :: "MCInst \<Rightarrow> nat \<Rightarrow> abort + string"
  EmitAnyX86InstComments :: "MCInst \<Rightarrow> string \<times> bool"
  printAnnotation :: "string \<Rightarrow> bool \<Rightarrow> string \<times> string"
  AliasTemplate :: "MCInst \<Rightarrow> AsmFragment list option"
  InstTemplate :: "X86Opcode \<Rightarrow> AsmFragment list"
  ST0 :: nat

section \<open>Printer state\<close>

text \<open>
  The output stream \<open>OS\<close> (the text written so far), the comment stream (\<open>None\<close> when no
  comment sink is attached, else the text written to it so far) and the printer's one
  mutable member, \<^verbatim>\<open>HasCustomInstComment\<close>.
\<close>

record PrinterState =
  OS :: string
  CommentStream :: "string option"
  HasCustomInstComment :: bool

type_synonym printer = "PrinterState \<Rightarrow> abort + PrinterState"

text \<open>\<^verbatim>\<open>OS << s\<close>.\<close>

definition emit :: "string \<Rightarrow> printer" where
  "emit s st = Inr (st\<lparr>OS := OS st @ s\<rparr>)"

text \<open>Statements in sequence; an abort ends the sequence.\<close>

fun seq :: "printer list \<Rightarrow> printer" where
  "seq [] st = Inr st"
| "seq (p # ps) st = bindA (p st) (seq ps)"

text \<open>\<^verbatim>\<open>return b\<close> after the statements \<open>p\<close>.\<close>

definition returning :: "bool \<Rightarrow> printer \<Rightarrow> PrinterState \<Rightarrow> abort + bool \<times> PrinterState" where
  "returning b p st = bindA (p st) (\<lambda>st'. Inr (b, st'))"

section \<open>Numbers as text\<close>

definition digit_char :: "nat \<Rightarrow> char" where
  "digit_char d = ''0123456789ABCDEF'' ! d"

text \<open>\<^verbatim>\<open>OS << unsigned\<close>: decimal, no sign, no leading zeros.\<close>

function utostr :: "nat \<Rightarrow> string" where
  "utostr n = (if n < 10 then [digit_char n] else utostr (n div 10) @ [digit_char (n mod 10)])"
  by pat_completeness auto
termination
  by (relation "measure id") auto

declare utostr.simps [simp del]

text \<open>\<^verbatim>\<open>%X\<close>: upper-case hexadecimal, no prefix, no leading zeros.\<close>

function utohexstr :: "nat \<Rightarrow> string" where
  "utohexstr n = (if n < 16 then [digit_char n] else utohexstr (n div 16) @ [digit_char (n mod 16)])"
  by pat_completeness auto
termination
  by (relation "measure id") auto

declare utohexstr.simps [simp del]

text \<open>\<^verbatim>\<open>%\<close> \<^verbatim>\<open>PRId64\<close>: signed decimal.\<close>

definition formatDec :: "int64 \<Rightarrow> string" where
  "formatDec v = (if sint v < 0 then ''-'' @ utostr (nat (- sint v)) else utostr (nat (sint v)))"

text \<open>
  Modelled from the spec: \<^verbatim>\<open>MCInstPrinter::formatImm\<close> (\<^verbatim>\<open>MCInstPrinter.cpp\<close>): the value
  as a signed decimal, or hexadecimal per the format configuration (section 4.1).
\<close>

definition formatImm :: "PrinterConfig \<Rightarrow> int64 \<Rightarrow> string" where
  "formatImm cfg v = (if PrintImmHex cfg then formatHex cfg v else formatDec v)"

text \<open>
  Modelled from the spec: \<^verbatim>\<open>MCInstPrinter::markup\<close>: the marker when markup is enabled,
  the empty text otherwise (section 6: purely additive).
\<close>

definition markup :: "PrinterConfig \<Rightarrow> string \<Rightarrow> string" where
  "markup cfg s = (if UseMarkup cfg then s else [])"

section \<open>Operand formatters\<close>

text \<open>\<^verbatim>\<open>printRegName\<close>.\<close>

definition regNameText :: "PrinterConfig \<Rightarrow> nat \<Rightarrow> string" where
  "regNameText cfg RegNo =
     markup cfg ''<reg:'' @ ''%'' @ getRegisterName cfg RegNo @ markup cfg ''>''"

definition printRegName :: "PrinterConfig \<Rightarrow> nat \<Rightarrow> printer" where
  "printRegName cfg RegNo = emit (regNameText cfg RegNo)"

text \<open>
  The text of the hex comment of \<^verbatim>\<open>printOperand\<close>: \<^verbatim>\<open>(int16_t)Imm\<close> keeps the low 16
  bits and the comparison with \<^verbatim>\<open>Imm\<close> extends them with their sign; \<^verbatim>\<open>(uint16_t)Imm\<close>
  is the same bits read unsigned. Likewise at 32 bits.
\<close>

definition immCommentText :: "int64 \<Rightarrow> string" where
  "immCommentText v =
     (if v = scast (ucast v :: 16 word) then
        ''imm = 0x'' @ utohexstr (unat (ucast v :: 16 word)) @ [CHR 0x0A]
      else if v = scast (ucast v :: 32 word) then
        ''imm = 0x'' @ utohexstr (unat (ucast v :: 32 word)) @ [CHR 0x0A]
      else
        ''imm = 0x'' @ utohexstr (unat v) @ [CHR 0x0A])"

definition printImmComment :: "int64 \<Rightarrow> printer" where
  "printImmComment v st =
     (case CommentStream st of
        None \<Rightarrow> Inr st
      | Some cs \<Rightarrow>
          if \<not> HasCustomInstComment st \<and> (255 < sint v \<or> sint v < - 256)
          then Inr (st\<lparr>CommentStream := Some (cs @ immCommentText v)\<rparr>)
          else Inr st)"

text \<open>\<^verbatim>\<open>printOperand\<close>.\<close>

definition printOperand :: "PrinterConfig \<Rightarrow> MCInst \<Rightarrow> nat \<Rightarrow> printer" where
  "printOperand cfg MI OpNo st =
     bindA (getOperand MI OpNo) (\<lambda>Op.
       case Op of
         Reg r \<Rightarrow> printRegName cfg r st
       | Imm v \<Rightarrow>
           seq [emit (markup cfg ''<imm:'' @ ''$'' @ formatImm cfg v @ markup cfg ''>''),
                printImmComment v] st
       | Expr e \<Rightarrow>
           emit (markup cfg ''<imm:'' @ ''$'' @ printExpr cfg e @ markup cfg ''>'') st
       | _ \<Rightarrow> Inl (AssertionFailed ''unknown operand kind in printOperand''))"

text \<open>
  Modelled from the spec: \<^verbatim>\<open>printOptionalSegReg\<close> (\<^verbatim>\<open>X86InstPrinterCommon.cpp\<close>): the
  segment prefix, the register then a colon, is written if the segment sub-operand names
  a real register (sections 4.1 and 6).
\<close>

definition printOptionalSegReg :: "PrinterConfig \<Rightarrow> MCInst \<Rightarrow> nat \<Rightarrow> printer" where
  "printOptionalSegReg cfg MI OpNum st =
     bindA (bindA (getOperand MI OpNum) getReg) (\<lambda>r.
       if r \<noteq> 0 then seq [printOperand cfg MI OpNum, emit '':''] st else Inr st)"

text \<open>
  \<^verbatim>\<open>printMemReference\<close>. The three operand references are bound first. \<^verbatim>\<open>||\<close> and
  \<^verbatim>\<open>&&\<close> evaluate their right operand only when needed, so \<^verbatim>\<open>getReg\<close> runs (and can
  abort) only where the source reaches it. \<^verbatim>\<open>unsigned ScaleVal\<close> keeps the low 32 bits
  of the scale immediate.
\<close>

definition printMemReference :: "PrinterConfig \<Rightarrow> MCInst \<Rightarrow> nat \<Rightarrow> printer" where
  "printMemReference cfg MI Op st =
     bindA (getOperand MI (Op + AddrBaseReg)) (\<lambda>BaseReg.
     bindA (getOperand MI (Op + AddrIndexReg)) (\<lambda>IndexReg.
     bindA (getOperand MI (Op + AddrDisp)) (\<lambda>DispSpec.
       seq [
         emit (markup cfg ''<mem:''),
         printOptionalSegReg cfg MI (Op + AddrSegmentReg),
         (\<lambda>st.
            case DispSpec of
              Imm DispVal \<Rightarrow>
                if DispVal \<noteq> 0 then emit (formatImm cfg DispVal) st
                else
                  bindA (getReg IndexReg) (\<lambda>i.
                    if i \<noteq> 0 then Inr st
                    else
                      bindA (getReg BaseReg) (\<lambda>b.
                        if b \<noteq> 0 then Inr st else emit (formatImm cfg DispVal) st))
            | Expr e \<Rightarrow> emit (printExpr cfg e) st
            | _ \<Rightarrow> Inl (AssertionFailed ''non-immediate displacement for LEA?'')),
         (\<lambda>st.
            bindA (getReg IndexReg) (\<lambda>i.
            bindA (if i \<noteq> 0 then Inr True else bindA (getReg BaseReg) (\<lambda>b. Inr (b \<noteq> 0)))
              (\<lambda>present.
                 if present then
                   seq [
                     emit ''('',
                     (\<lambda>st. bindA (getReg BaseReg) (\<lambda>b.
                        if b \<noteq> 0 then printOperand cfg MI (Op + AddrBaseReg) st else Inr st)),
                     (\<lambda>st. bindA (getReg IndexReg) (\<lambda>i.
                        if i \<noteq> 0 then
                          seq [
                            emit '','',
                            printOperand cfg MI (Op + AddrIndexReg),
                            (\<lambda>st.
                               bindA (bindA (getOperand MI (Op + AddrScaleAmt)) getImm) (\<lambda>s.
                                 let ScaleVal = (ucast s :: 32 word) in
                                 if ScaleVal \<noteq> 1 then
                                   emit ('','' @ markup cfg ''<imm:'' @ utostr (unat ScaleVal)
                                         @ markup cfg ''>'') st
                                 else Inr st))] st
                        else Inr st)),
                     emit '')''] st
                 else Inr st))),
         emit (markup cfg ''>'')] st)))"

text \<open>\<^verbatim>\<open>printSrcIdx\<close>.\<close>

definition printSrcIdx :: "PrinterConfig \<Rightarrow> MCInst \<Rightarrow> nat \<Rightarrow> printer" where
  "printSrcIdx cfg MI Op =
     seq [emit (markup cfg ''<mem:''),
          printOptionalSegReg cfg MI (Op + 1),
          emit ''('',
          printOperand cfg MI Op,
          emit '')'',
          emit (markup cfg ''>'')]"

text \<open>\<^verbatim>\<open>printDstIdx\<close>.\<close>

definition printDstIdx :: "PrinterConfig \<Rightarrow> MCInst \<Rightarrow> nat \<Rightarrow> printer" where
  "printDstIdx cfg MI Op =
     seq [emit (markup cfg ''<mem:''),
          emit ''%es:('',
          printOperand cfg MI Op,
          emit '')'',
          emit (markup cfg ''>'')]"

text \<open>\<^verbatim>\<open>printMemOffset\<close>.\<close>

definition printMemOffset :: "PrinterConfig \<Rightarrow> MCInst \<Rightarrow> nat \<Rightarrow> printer" where
  "printMemOffset cfg MI Op st =
     bindA (getOperand MI Op) (\<lambda>DispSpec.
       seq [emit (markup cfg ''<mem:''),
            printOptionalSegReg cfg MI (Op + 1),
            (\<lambda>st.
               case DispSpec of
                 Imm v \<Rightarrow> emit (formatImm cfg v) st
               | Expr e \<Rightarrow> emit (printExpr cfg e) st
               | _ \<Rightarrow> Inl (AssertionFailed ''non-immediate displacement?'')),
            emit (markup cfg ''>'')] st)"

text \<open>\<^verbatim>\<open>printU8Imm\<close>.\<close>

definition printU8Imm :: "PrinterConfig \<Rightarrow> MCInst \<Rightarrow> nat \<Rightarrow> printer" where
  "printU8Imm cfg MI Op st =
     bindA (getOperand MI Op) (\<lambda>Opnd.
       if isExpr Opnd then printOperand cfg MI Op st
       else
         bindA (getImm Opnd) (\<lambda>v.
           emit (markup cfg ''<imm:'' @ ''$'' @ formatImm cfg (v AND 0xff) @ markup cfg ''>'') st))"

text \<open>\<^verbatim>\<open>printSTiRegOperand\<close>.\<close>

definition printSTiRegOperand :: "PrinterConfig \<Rightarrow> MCInst \<Rightarrow> nat \<Rightarrow> printer" where
  "printSTiRegOperand cfg MI OpNo st =
     bindA (bindA (getOperand MI OpNo) getReg) (\<lambda>r.
       if r = ST0 cfg then emit (markup cfg ''<reg:'' @ ''%st(0)'' @ markup cfg ''>'') st
       else printRegName cfg r st)"

text \<open>
  Modelled from the spec: the size-named memory formatters of \<^verbatim>\<open>X86ATTInstPrinter.h\<close>.
  This dialect does not write the operand size (section 1), so each of them writes the
  general memory form.
\<close>

definition printdwordmem :: "PrinterConfig \<Rightarrow> MCInst \<Rightarrow> nat \<Rightarrow> printer" where
  "printdwordmem cfg MI OpNo = printMemReference cfg MI OpNo"

definition printqwordmem :: "PrinterConfig \<Rightarrow> MCInst \<Rightarrow> nat \<Rightarrow> printer" where
  "printqwordmem cfg MI OpNo = printMemReference cfg MI OpNo"

definition printxmmwordmem :: "PrinterConfig \<Rightarrow> MCInst \<Rightarrow> nat \<Rightarrow> printer" where
  "printxmmwordmem cfg MI OpNo = printMemReference cfg MI OpNo"

definition printymmwordmem :: "PrinterConfig \<Rightarrow> MCInst \<Rightarrow> nat \<Rightarrow> printer" where
  "printymmwordmem cfg MI OpNo = printMemReference cfg MI OpNo"

definition printzmmwordmem :: "PrinterConfig \<Rightarrow> MCInst \<Rightarrow> nat \<Rightarrow> printer" where
  "printzmmwordmem cfg MI OpNo = printMemReference cfg MI OpNo"

section \<open>The generated writer\<close>

text \<open>
  Modelled from the spec: \<^verbatim>\<open>printInstruction\<close> and \<^verbatim>\<open>printAliasInstr\<close>
  (\<^verbatim>\<open>X86GenAsmWriter.inc\<close>, generated, not among the sources). The generic path prints the
  opcode's own template, a fixed mnemonic and the operands in the declared order
  (section 4.3); the alias path prints the template of the first alias entry that
  matches, and reports whether one matched. Which entry matches is the table's business:
  \<open>AliasTemplate cfg MI\<close> is that entry's template, \<open>None\<close> if none matches.
\<close>

fun runFragment :: "PrinterConfig \<Rightarrow> MCInst \<Rightarrow> AsmFragment \<Rightarrow> printer" where
  "runFragment cfg MI (Literal s) = emit s"
| "runFragment cfg MI (CallPrintOperand n) = printOperand cfg MI n"
| "runFragment cfg MI (CallPrintMemReference n) = printMemReference cfg MI n"
| "runFragment cfg MI (CallPrintSrcIdx n) = printSrcIdx cfg MI n"
| "runFragment cfg MI (CallPrintDstIdx n) = printDstIdx cfg MI n"
| "runFragment cfg MI (CallPrintMemOffset n) = printMemOffset cfg MI n"
| "runFragment cfg MI (CallPrintU8Imm n) = printU8Imm cfg MI n"
| "runFragment cfg MI (CallPrintSTiRegOperand n) = printSTiRegOperand cfg MI n"
| "runFragment cfg MI (CallCommon f) = (\<lambda>st. bindA (f MI) (\<lambda>txt. emit txt st))"

definition printInstruction :: "PrinterConfig \<Rightarrow> MCInst \<Rightarrow> printer" where
  "printInstruction cfg MI = seq (map (runFragment cfg MI) (InstTemplate cfg (Opcode MI)))"

definition printAliasInstr ::
  "PrinterConfig \<Rightarrow> MCInst \<Rightarrow> PrinterState \<Rightarrow> abort + bool \<times> PrinterState" where
  "printAliasInstr cfg MI st =
     (case AliasTemplate cfg MI of
        None \<Rightarrow> Inr (False, st)
      | Some t \<Rightarrow> returning True (seq (map (runFragment cfg MI) t)) st)"

section \<open>The vector-compare resolver\<close>

text \<open>
  The two groups of \<^verbatim>\<open>case\<close> labels of \<^verbatim>\<open>printVecCompareInstr\<close>. The first lists
  \<^verbatim>\<open>VPCOM\<close> for all eight element kinds in both forms. The second lists \<^verbatim>\<open>VPCMP\<close> for
  all eight element kinds and three lengths in the forms \<^verbatim>\<open>rmi\<close>, \<^verbatim>\<open>rri\<close>, \<^verbatim>\<open>rmik\<close>,
  \<^verbatim>\<open>rrik\<close>, and in the broadcast forms \<^verbatim>\<open>rmib\<close>, \<^verbatim>\<open>rmibk\<close> for the element kinds
  \<^verbatim>\<open>D\<close>, \<^verbatim>\<open>Q\<close>, \<^verbatim>\<open>UD\<close>, \<^verbatim>\<open>UQ\<close> only.
\<close>

fun isVPCOMcase :: "X86Opcode \<Rightarrow> bool" where
  "isVPCOMcase (VPCOM e f) = True"
| "isVPCOMcase _ = False"

fun hasBroadcastForm :: "EltKind \<Rightarrow> bool" where
  "hasBroadcastForm Elt_D = True"
| "hasBroadcastForm Elt_Q = True"
| "hasBroadcastForm Elt_UD = True"
| "hasBroadcastForm Elt_UQ = True"
| "hasBroadcastForm _ = False"

fun isVPCMPcase :: "X86Opcode \<Rightarrow> bool" where
  "isVPCMPcase (VPCMP e l F_rmib) = hasBroadcastForm e"
| "isVPCMPcase (VPCMP e l F_rmibk) = hasBroadcastForm e"
| "isVPCMPcase (VPCMP e l f) = True"
| "isVPCMPcase _ = False"

text \<open>\<^verbatim>\<open>Desc.TSFlags & Flag\<close> as a condition.\<close>

definition hasFlag :: "64 word \<Rightarrow> 64 word \<Rightarrow> bool" where
  "hasFlag flags f = (flags AND f \<noteq> 0)"

text \<open>The number of elements broadcast (\<^verbatim>\<open>NumElts\<close>).\<close>

definition NumElts :: "X86II \<Rightarrow> 64 word \<Rightarrow> nat" where
  "NumElts II flags =
     (if hasFlag flags (EVEX_L2 II) then (if hasFlag flags (VEX_W II) then 8 else 16)
      else if hasFlag flags (VEX_L II) then (if hasFlag flags (VEX_W II) then 4 else 8)
      else (if hasFlag flags (VEX_W II) then 2 else 4))"

text \<open>
  The size, in bits, of the element the broadcast form loads, by the formatter the source
  calls for it: \<^verbatim>\<open>printqwordmem\<close> (a quadword) with \<^verbatim>\<open>VEX_W\<close>, \<^verbatim>\<open>printdwordmem\<close> (a
  doubleword) without; in the source's words, the load size is based on the W bit as only
  D and Q are supported.
\<close>

definition broadcastLoadBits :: "X86II \<Rightarrow> 64 word \<Rightarrow> nat" where
  "broadcastLoadBits II flags = (if hasFlag flags (VEX_W II) then 64 else 32)"

text \<open>
  The width of the whole vector, in bits, by the formatter the source calls for a memory
  source without broadcast: \<^verbatim>\<open>printzmmwordmem\<close> with \<^verbatim>\<open>EVEX_L2\<close>, else
  \<^verbatim>\<open>printymmwordmem\<close> with \<^verbatim>\<open>VEX_L\<close>, else \<^verbatim>\<open>printxmmwordmem\<close>.
\<close>

definition vectorLengthBits :: "X86II \<Rightarrow> 64 word \<Rightarrow> nat" where
  "vectorLengthBits II flags =
     (if hasFlag flags (EVEX_L2 II) then 512
      else if hasFlag flags (VEX_L II) then 256 else 128)"

text \<open>
  The first operand a \<^verbatim>\<open>VPCMP\<close> instruction prints, at the cursor \<^verbatim>\<open>CurOp\<close>: the
  \<^verbatim>\<open>if\<close> on the descriptor's form. Each of its branches prints one operand at
  \<^verbatim>\<open>CurOp--\<close>; the decrement is made by the caller below.
\<close>

definition printVPCMPSource :: "PrinterConfig \<Rightarrow> MCInst \<Rightarrow> nat \<Rightarrow> printer" where
  "printVPCMPSource cfg MI CurOp =
     (let II = X86II_consts cfg; flags = TSFlags cfg (Opcode MI) in
      if flags AND FormMask II = MRMSrcMem II then
        if hasFlag flags (EVEX_B II) then
          seq [if hasFlag flags (VEX_W II) then printqwordmem cfg MI CurOp
               else printdwordmem cfg MI CurOp,
               emit (''{1to'' @ utostr (NumElts II flags) @ ''}'')]
        else
          if hasFlag flags (EVEX_L2 II) then printzmmwordmem cfg MI CurOp
          else if hasFlag flags (VEX_L II) then printymmwordmem cfg MI CurOp
          else printxmmwordmem cfg MI CurOp
      else printOperand cfg MI CurOp)"

text \<open>
  \<^verbatim>\<open>printVecCompareInstr\<close>. \<open>CurOp0\<close>, \<open>CurOp1\<close>, \<open>CurOp2\<close> are the values of the
  cursor \<^verbatim>\<open>CurOp\<close> at its start and after its first and second \<^verbatim>\<open>CurOp--\<close>. The
  cursor is at least 2 at its start, so no decrement is made at 0.
\<close>

definition printVecCompareInstr ::
  "PrinterConfig \<Rightarrow> MCInst \<Rightarrow> PrinterState \<Rightarrow> abort + bool \<times> PrinterState" where
  "printVecCompareInstr cfg MI st =
     (if getNumOperands MI = 0 then Inr (False, st)
      else
        bindA (getOperand MI (getNumOperands MI - 1)) (\<lambda>Last.
          if \<not> isImm Last then Inr (False, st)
          else
            bindA (getImm Last) (\<lambda>v.
              let II = X86II_consts cfg; flags = TSFlags cfg (Opcode MI) in
              if isVPCOMcase (Opcode MI) then
                if 0 \<le> sint v \<and> sint v \<le> 7 then
                  returning True (seq [
                    emit [CHR 0x09],
                    emit (printVPCOMMnemonic cfg MI),
                    if flags AND FormMask II = MRMSrcMem II then printxmmwordmem cfg MI 2
                    else printOperand cfg MI 2,
                    emit '', '',
                    printOperand cfg MI 1,
                    emit '', '',
                    printOperand cfg MI 0]) st
                else Inr (False, st)
              else if isVPCMPcase (Opcode MI) then
                if (0 \<le> sint v \<and> sint v \<le> 2) \<or> (4 \<le> sint v \<and> sint v \<le> 6) then
                  let CurOp0 = (if hasFlag flags (EVEX_K II) then 3 else 2 :: nat);
                      CurOp1 = CurOp0 - 1;
                      CurOp2 = CurOp1 - 1
                  in
                  returning True (seq [
                    emit [CHR 0x09],
                    emit (printVPCMPMnemonic cfg MI),
                    printVPCMPSource cfg MI CurOp0,
                    emit '', '',
                    printOperand cfg MI CurOp1,
                    emit '', '',
                    printOperand cfg MI 0,
                    if CurOp2 > 0 then
                      seq [emit '' {'', printOperand cfg MI CurOp2, emit ''}'']
                    else seq []]) st
                else Inr (False, st)
              else Inr (False, st))))"

section \<open>The print driver\<close>

text \<open>
  The first statement of \<^verbatim>\<open>printInst\<close>: with a comment stream attached, the
  opcode-specific comment is written and the flag takes the generator's result.
\<close>

definition emitInstComments :: "PrinterConfig \<Rightarrow> MCInst \<Rightarrow> PrinterState \<Rightarrow> PrinterState" where
  "emitInstComments cfg MI st =
     (case CommentStream st of
        None \<Rightarrow> st
      | Some cs \<Rightarrow>
          st\<lparr>CommentStream := Some (cs @ fst (EmitAnyX86InstComments cfg MI)),
             HasCustomInstComment := snd (EmitAnyX86InstComments cfg MI)\<rparr>)"

text \<open>The last statement of \<^verbatim>\<open>printInst\<close>, by the text the annotation printer writes.\<close>

definition runPrintAnnotation :: "PrinterConfig \<Rightarrow> string \<Rightarrow> printer" where
  "runPrintAnnotation cfg Annot st =
     (case CommentStream st of
        None \<Rightarrow> Inr (st\<lparr>OS := OS st @ fst (printAnnotation cfg Annot False)\<rparr>)
      | Some cs \<Rightarrow>
          Inr (st\<lparr>OS := OS st @ fst (printAnnotation cfg Annot True),
                 CommentStream := Some (cs @ snd (printAnnotation cfg Annot True))\<rparr>))"

text \<open>The alias path first, then the vector-compare resolver, then the generic template.\<close>

definition printDispatch :: "PrinterConfig \<Rightarrow> MCInst \<Rightarrow> printer" where
  "printDispatch cfg MI st =
     bindA (printAliasInstr cfg MI st) (\<lambda>(aliased, st1).
       if aliased then Inr st1
       else
         bindA (printVecCompareInstr cfg MI st1) (\<lambda>(handled, st2).
           if handled then Inr st2 else printInstruction cfg MI st2))"

text \<open>\<^verbatim>\<open>printInst\<close>.\<close>

definition printInst ::
  "PrinterConfig \<Rightarrow> MCInst \<Rightarrow> string \<Rightarrow> MCSubtargetInfo \<Rightarrow> printer" where
  "printInst cfg MI Annot STI st =
     seq [
       emit (printInstFlags cfg MI),
       if Opcode MI = CALLpcrel32 \<and> Mode64Bit \<in> FeatureBits STI then
         seq [emit ([CHR 0x09] @ ''callq'' @ [CHR 0x09]),
              (\<lambda>st. bindA (printPCRelImm cfg MI 0) (\<lambda>txt. emit txt st))]
       else if Opcode MI = DATA16_PREFIX \<and> Mode16Bit \<in> FeatureBits STI then
         emit ([CHR 0x09] @ ''data32'')
       else printDispatch cfg MI,
       runPrintAnnotation cfg Annot] (emitInstComments cfg MI st)"

section \<open>Readings of the specification\<close>

text \<open>
  Sign-extending the low \<open>w\<close> bits of \<open>i\<close> gives \<open>i\<close> back; the narrowest of the
  widths 16, 32 and 64 for which it does.
\<close>

definition sign_extension_reproduces :: "nat \<Rightarrow> int \<Rightarrow> bool" where
  "sign_extension_reproduces w i \<longleftrightarrow> signed_take_bit (w - 1) i = i"

definition narrowest_hex_width :: "int \<Rightarrow> nat" where
  "narrowest_hex_width i =
     (if sign_extension_reproduces 16 i then 16
      else if sign_extension_reproduces 32 i then 32 else 64)"

section \<open>Example inputs\<close>

text \<open>
  A configuration to run the printer on: no markup, decimal immediates, registers named
  by their number, and sample values for the descriptor constants.
\<close>

definition exampleII :: X86II where
  "exampleII = \<lparr>FormMask = 0x3F, MRMSrcMem = 0x21, EVEX_K = 0x400, EVEX_B = 0x1000,
                 VEX_W = 0x100, VEX_L = 0x200, EVEX_L2 = 0x800\<rparr>"

fun exampleTSFlags :: "X86Opcode \<Rightarrow> 64 word" where
  "exampleTSFlags (VPCMP e l f) =
     (if f = F_rri \<or> f = F_rrik then 0x28 else 0x21)
     OR (if f = F_rmik \<or> f = F_rrik \<or> f = F_rmibk then 0x400 else 0)
     OR (if f = F_rmib \<or> f = F_rmibk then 0x1000 else 0)
     OR (if e = Elt_Q \<or> e = Elt_UQ \<or> e = Elt_W \<or> e = Elt_UW then 0x100 else 0)
     OR (case l of Len_Z128 \<Rightarrow> 0 | Len_Z256 \<Rightarrow> 0x200 | Len_Z \<Rightarrow> 0x800)"
| "exampleTSFlags (VPCOM e F_mi) = 0x21"
| "exampleTSFlags (VPCOM e F_ri) = 0x28"
| "exampleTSFlags _ = 0"

definition exampleFormatHex :: "int64 \<Rightarrow> string" where
  "exampleFormatHex v =
     (if sint v < 0 then ''-0x'' @ utohexstr (nat (- sint v)) else ''0x'' @ utohexstr (nat (sint v)))"

fun examplePrintExpr :: "MCExpr \<Rightarrow> string" where
  "examplePrintExpr (MCSymbolRefExpr s) = s"
| "examplePrintExpr (MCConstantExpr c) = formatDec c"

fun exampleTemplate :: "X86Opcode \<Rightarrow> AsmFragment list" where
  "exampleTemplate (VPCOM e F_ri) =
     [Literal ([CHR 0x09] @ ''vpcom'' @ [CHR 0x09]), CallPrintU8Imm 3, Literal '', '',
      CallPrintOperand 2, Literal '', '', CallPrintOperand 1, Literal '', '',
      CallPrintOperand 0]"
| "exampleTemplate (VPCMP e l F_rri) =
     [Literal ([CHR 0x09] @ ''vpcmp'' @ [CHR 0x09]), CallPrintU8Imm 3, Literal '', '',
      CallPrintOperand 2, Literal '', '', CallPrintOperand 1, Literal '', '',
      CallPrintOperand 0]"
| "exampleTemplate _ =
     [Literal ([CHR 0x09] @ ''mov'' @ [CHR 0x09]), CallPrintOperand 1, Literal '', '',
      CallPrintOperand 0]"

definition exampleConfig :: PrinterConfig where
  "exampleConfig =
     \<lparr>UseMarkup = False,
      PrintImmHex = False,
      formatHex = exampleFormatHex,
      getRegisterName = (\<lambda>r. ''r'' @ utostr r),
      printExpr = examplePrintExpr,
      TSFlags = exampleTSFlags,
      X86II_consts = exampleII,
      printVPCOMMnemonic = (\<lambda>MI. ''vpcomgtb'' @ [CHR 0x09]),
      printVPCMPMnemonic = (\<lambda>MI. ''vpcmpnltd'' @ [CHR 0x09]),
      printInstFlags = (\<lambda>MI. []),
      printPCRelImm = (\<lambda>MI n. Inr ''target''),
      EmitAnyX86InstComments = (\<lambda>MI. ([], False)),
      printAnnotation = (\<lambda>Annot attached. ([], [])),
      AliasTemplate = (\<lambda>MI. None),
      InstTemplate = exampleTemplate,
      ST0 = 100\<rparr>"

definition exampleInst :: "X86Opcode \<Rightarrow> MCOperand list \<Rightarrow> MCInst" where
  "exampleInst opc ops = \<lparr>Opcode = opc, Flags = 0, Operands = ops\<rparr>"

text \<open>A fresh state with a comment stream attached, and one with none.\<close>

definition stateWithComments :: PrinterState where
  "stateWithComments = \<lparr>OS = [], CommentStream = Some [], HasCustomInstComment = False\<rparr>"

definition stateNoComments :: PrinterState where
  "stateNoComments = \<lparr>OS = [], CommentStream = None, HasCustomInstComment = False\<rparr>"

section \<open>The dialect's memory operand, piece by piece\<close>

text \<open>
  The pieces of \<^verbatim>\<open>segment:disp(base,index,scale)\<close> as section 6 of the specification
  describes them, for a base register \<open>b\<close>, an index register \<open>i\<close> (0 for an absent
  register), a scale immediate \<open>s\<close>, a displacement \<open>d\<close> and a segment register \<open>sg\<close>.
\<close>

definition segmentText :: "PrinterConfig \<Rightarrow> nat \<Rightarrow> string" where
  "segmentText cfg sg = (if sg \<noteq> 0 then regNameText cfg sg @ '':'' else [])"


definition scaleText :: "PrinterConfig \<Rightarrow> 32 word \<Rightarrow> string" where
  "scaleText cfg ScaleVal =
     (if ScaleVal \<noteq> 1
      then '','' @ markup cfg ''<imm:'' @ utostr (unat ScaleVal) @ markup cfg ''>''
      else [])"

definition registersText :: "PrinterConfig \<Rightarrow> nat \<Rightarrow> nat \<Rightarrow> int64 \<Rightarrow> string" where
  "registersText cfg b i s =
     (if b = 0 \<and> i = 0 then []
      else ''('' @ (if b \<noteq> 0 then regNameText cfg b else [])
           @ (if i \<noteq> 0 then '','' @ regNameText cfg i @ scaleText cfg (ucast s) else [])
           @ '')'')"

section \<open>The resolver's gate, as the specification words it\<close>

text \<open>
  The trailing operand's value when it is an immediate, and the legal ranges of the two
  families: 0 through 7 for the first (\<^verbatim>\<open>VPCOM\<close>), 0 through 2 or 4 through 6 for the
  second (\<^verbatim>\<open>VPCMP\<close>).
\<close>

definition trailingImm :: "MCInst \<Rightarrow> int option" where
  "trailingImm MI = (case rev (Operands MI) of Imm v # _ \<Rightarrow> Some (sint v) | _ \<Rightarrow> None)"

definition legalFamilyA :: "MCInst \<Rightarrow> bool" where
  "legalFamilyA MI = (case trailingImm MI of Some i \<Rightarrow> 0 \<le> i \<and> i \<le> 7 | None \<Rightarrow> False)"

definition legalFamilyB :: "MCInst \<Rightarrow> bool" where
  "legalFamilyB MI =
     (case trailingImm MI of
        Some i \<Rightarrow> (0 \<le> i \<and> i \<le> 2) \<or> (4 \<le> i \<and> i \<le> 6)
      | None \<Rightarrow> False)"

text \<open>The resolver returned \<^verbatim>\<open>false\<close>: not handled.\<close>

definition declined :: "abort + bool \<times> PrinterState \<Rightarrow> bool" where
  "declined r = (case r of Inl e \<Rightarrow> False | Inr (handled, st) \<Rightarrow> \<not> handled)"

section \<open>What a print call leaves for the next\<close>





text \<open>The resolver returned \<^verbatim>\<open>true\<close>: it printed the instruction.\<close>

definition handled :: "abort + bool \<times> PrinterState \<Rightarrow> bool" where
  "handled r = (case r of Inl e \<Rightarrow> False | Inr (done, st) \<Rightarrow> done)"

text \<open>
  Modelled from the spec: the operand shape the descriptor of a vector-compare opcode
  declares (section 6, the input contract; the descriptor table is not among the
  sources). A plain operand is a register, an immediate or an expression; a memory
  operand is the group of five sub-operands of section 3, with register base, index and
  segment, an immediate scale and an immediate or expression displacement. The source of
  the compare is a memory operand when the descriptor's form is \<^verbatim>\<open>MRMSrcMem\<close>, a plain
  operand otherwise. A \<^verbatim>\<open>VPCOM\<close> instruction has plain operands 0 and 1 and its source at
  2; a \<^verbatim>\<open>VPCMP\<close> instruction has the same, or with \<^verbatim>\<open>EVEX_K\<close> plain operands 0, 1
  (the mask) and 2 and its source at 3.
\<close>

definition plainOperand :: "MCInst \<Rightarrow> nat \<Rightarrow> bool" where
  "plainOperand MI n =
     (case getOperand MI n of Inl e \<Rightarrow> False | Inr X \<Rightarrow> isReg X \<or> isImm X \<or> isExpr X)"

definition operandIs :: "(MCOperand \<Rightarrow> bool) \<Rightarrow> MCInst \<Rightarrow> nat \<Rightarrow> bool" where
  "operandIs kind MI n = (case getOperand MI n of Inl e \<Rightarrow> False | Inr X \<Rightarrow> kind X)"

definition memoryOperand :: "MCInst \<Rightarrow> nat \<Rightarrow> bool" where
  "memoryOperand MI n \<longleftrightarrow>
     operandIs isReg MI (n + AddrBaseReg) \<and> operandIs isImm MI (n + AddrScaleAmt)
     \<and> operandIs isReg MI (n + AddrIndexReg)
     \<and> (operandIs isImm MI (n + AddrDisp) \<or> operandIs isExpr MI (n + AddrDisp))
     \<and> operandIs isReg MI (n + AddrSegmentReg)"

definition sourceOperand :: "PrinterConfig \<Rightarrow> MCInst \<Rightarrow> nat \<Rightarrow> bool" where
  "sourceOperand cfg MI n =
     (if TSFlags cfg (Opcode MI) AND FormMask (X86II_consts cfg) = MRMSrcMem (X86II_consts cfg)
      then memoryOperand MI n else plainOperand MI n)"

definition declaredShapeA :: "PrinterConfig \<Rightarrow> MCInst \<Rightarrow> bool" where
  "declaredShapeA cfg MI \<longleftrightarrow>
     plainOperand MI 0 \<and> plainOperand MI 1 \<and> sourceOperand cfg MI 2"

definition declaredShapeB :: "PrinterConfig \<Rightarrow> MCInst \<Rightarrow> bool" where
  "declaredShapeB cfg MI \<longleftrightarrow>
     plainOperand MI 0 \<and> plainOperand MI 1
     \<and> (if hasFlag (TSFlags cfg (Opcode MI)) (EVEX_K (X86II_consts cfg))
        then plainOperand MI 2 \<and> sourceOperand cfg MI 3
        else sourceOperand cfg MI 2)"

text \<open>A printer that never aborts.\<close>

definition succeeds :: "printer \<Rightarrow> bool" where
  "succeeds p \<longleftrightarrow> (\<forall>st. \<not> isl (p st))"




section \<open>Properties\<close>

subsection \<open>Basic facts\<close>

lemma bindA_Inl [simp]: "bindA (Inl e) f = Inl e"
  by (simp add: bindA_def)

lemma bindA_Inr [simp]: "bindA (Inr x) f = f x"
  by (simp add: bindA_def)

subsection \<open>The hex comment of an immediate\<close>

lemma sint_scast16: "sint (scast (u :: 16 word) :: 64 word) = sint u"
  by (simp add: sint_up_scast is_up)

lemma sint_scast32: "sint (scast (u :: 32 word) :: 64 word) = sint u"
  by (simp add: sint_up_scast is_up)

lemma sint_ucast16: "sint (ucast (v :: 64 word) :: 16 word) = signed_take_bit 15 (sint v)"
  by (simp add: sint_uint signed_take_bit_take_bit unsigned_ucast_eq min_def)

lemma sint_ucast32: "sint (ucast (v :: 64 word) :: 32 word) = signed_take_bit 31 (sint v)"
  by (simp add: sint_uint signed_take_bit_take_bit unsigned_ucast_eq min_def)

lemma int16_cast_eq_iff:
  "(v = scast (ucast v :: 16 word)) \<longleftrightarrow> sign_extension_reproduces 16 (sint (v :: 64 word))"
proof -
  have "(v = scast (ucast v :: 16 word)) \<longleftrightarrow>
        sint v = sint (scast (ucast v :: 16 word) :: 64 word)"
    by (rule word_eq_iff_signed)
  then show ?thesis
    by (simp add: sign_extension_reproduces_def sint_scast16 sint_ucast16 eq_commute)
qed

lemma int32_cast_eq_iff:
  "(v = scast (ucast v :: 32 word)) \<longleftrightarrow> sign_extension_reproduces 32 (sint (v :: 64 word))"
proof -
  have "(v = scast (ucast v :: 32 word)) \<longleftrightarrow>
        sint v = sint (scast (ucast v :: 32 word) :: 64 word)"
    by (rule word_eq_iff_signed)
  then show ?thesis
    by (simp add: sign_extension_reproduces_def sint_scast32 sint_ucast32 eq_commute)
qed

lemma take_bit_sint64: "n \<le> 64 \<Longrightarrow> take_bit n (sint (v :: 64 word)) = take_bit n (uint v)"
  by (simp add: sint_uint take_bit_signed_take_bit)

lemma uint16_cast: "unat (ucast (v :: 64 word) :: 16 word) = nat (take_bit 16 (sint v))"
  by (simp add: take_bit_sint64 unsigned_ucast_eq unat_eq_nat_uint del: nat_uint_eq)

lemma uint32_cast: "unat (ucast (v :: 64 word) :: 32 word) = nat (take_bit 32 (sint v))"
  by (simp add: take_bit_sint64 unsigned_ucast_eq unat_eq_nat_uint del: nat_uint_eq)

lemma uint64_cast: "unat (v :: 64 word) = nat (take_bit 64 (sint v))"
proof -
  have "uint v < 2 ^ 64"
    using uint_bounded [of v] by simp
  then have "take_bit 64 (uint v) = uint v"
    by (simp add: take_bit_int_eq_self_iff)
  then show ?thesis
    by (simp add: take_bit_sint64 unat_eq_nat_uint del: nat_uint_eq)
qed

lemma immCommentText_width:
  "immCommentText v =
     ''imm = 0x'' @ utohexstr (nat (take_bit (narrowest_hex_width (sint v)) (sint v)))
     @ [CHR 0x0A]"
  by (simp add: immCommentText_def narrowest_hex_width_def int16_cast_eq_iff
      int32_cast_eq_iff uint16_cast uint32_cast uint64_cast)

text \<open>
  C4. When the plain operand formatter prints an immediate, it writes the immediate to
  the output stream, and it appends a hex comment to the comment stream exactly when a
  comment stream is attached, no opcode-specific comment was emitted for the instruction
  and the value is outside \<open>[-256, 255]\<close>. The comment shows the low bits of the value at
  the narrowest of the widths 16, 32 and 64 from which sign extension gives the value
  back.
\<close>

theorem printOperand_imm_hex_comment:
  assumes "getOperand MI OpNo = Inr (Imm v)"
  shows "printOperand cfg MI OpNo st =
     Inr (st\<lparr>OS := OS st @ markup cfg ''<imm:'' @ ''$'' @ formatImm cfg v @ markup cfg ''>'',
            CommentStream :=
              (case CommentStream st of
                 None \<Rightarrow> None
               | Some cs \<Rightarrow>
                   if \<not> HasCustomInstComment st \<and> \<not> (- 256 \<le> sint v \<and> sint v \<le> 255)
                   then Some (cs @ ''imm = 0x''
                          @ utohexstr (nat (take_bit (narrowest_hex_width (sint v)) (sint v)))
                          @ [CHR 0x0A])
                   else Some cs)\<rparr>)"
  using assms
  by (auto simp: printOperand_def emit_def printImmComment_def immCommentText_width
      split: option.splits)

text \<open>
  The formatter on the immediates 300, 70000, 5000000000, 255, -256 and -300, with a
  comment stream attached and no opcode-specific comment: widths 16, 32 and 64, no
  comment at either end of the small range, and the 16-bit pattern of a negative value.
\<close>

theorem printOperand_imm_hex_comment_witness:
  "printOperand exampleConfig (exampleInst (OtherOpcode 0) [Imm (300)]) 0 stateWithComments =
     Inr \<lparr>OS = ''$300'', CommentStream = Some (''imm = 0x12C'' @ [CHR 0x0A]), HasCustomInstComment = False\<rparr> \<and>
   printOperand exampleConfig (exampleInst (OtherOpcode 0) [Imm (70000)]) 0 stateWithComments =
     Inr \<lparr>OS = ''$70000'', CommentStream = Some (''imm = 0x11170'' @ [CHR 0x0A]), HasCustomInstComment = False\<rparr> \<and>
   printOperand exampleConfig (exampleInst (OtherOpcode 0) [Imm (5000000000)]) 0 stateWithComments =
     Inr \<lparr>OS = ''$5000000000'', CommentStream = Some (''imm = 0x12A05F200'' @ [CHR 0x0A]), HasCustomInstComment = False\<rparr> \<and>
   printOperand exampleConfig (exampleInst (OtherOpcode 0) [Imm (255)]) 0 stateWithComments =
     Inr \<lparr>OS = ''$255'', CommentStream = Some [], HasCustomInstComment = False\<rparr> \<and>
   printOperand exampleConfig (exampleInst (OtherOpcode 0) [Imm (- 256)]) 0 stateWithComments =
     Inr \<lparr>OS = ''$-256'', CommentStream = Some [], HasCustomInstComment = False\<rparr> \<and>
   printOperand exampleConfig (exampleInst (OtherOpcode 0) [Imm (- 300)]) 0 stateWithComments =
     Inr \<lparr>OS = ''$-300'', CommentStream = Some (''imm = 0xFED4'' @ [CHR 0x0A]), HasCustomInstComment = False\<rparr>"
proof -
  have h0: "getOperand (exampleInst (OtherOpcode 0) [Imm (300)]) 0 = Inr (Imm (300))"
    by (simp add: getOperand_def exampleInst_def)
  have h1: "getOperand (exampleInst (OtherOpcode 0) [Imm (70000)]) 0 = Inr (Imm (70000))"
    by (simp add: getOperand_def exampleInst_def)
  have h2: "getOperand (exampleInst (OtherOpcode 0) [Imm (5000000000)]) 0 = Inr (Imm (5000000000))"
    by (simp add: getOperand_def exampleInst_def)
  have h3: "getOperand (exampleInst (OtherOpcode 0) [Imm (255)]) 0 = Inr (Imm (255))"
    by (simp add: getOperand_def exampleInst_def)
  have h4: "getOperand (exampleInst (OtherOpcode 0) [Imm (- 256)]) 0 = Inr (Imm (- 256))"
    by (simp add: getOperand_def exampleInst_def)
  have h5: "getOperand (exampleInst (OtherOpcode 0) [Imm (- 300)]) 0 = Inr (Imm (- 300))"
    by (simp add: getOperand_def exampleInst_def)
  show ?thesis
    using printOperand_imm_hex_comment [OF h0, of exampleConfig stateWithComments]
      printOperand_imm_hex_comment [OF h1, of exampleConfig stateWithComments]
      printOperand_imm_hex_comment [OF h2, of exampleConfig stateWithComments]
      printOperand_imm_hex_comment [OF h3, of exampleConfig stateWithComments]
      printOperand_imm_hex_comment [OF h4, of exampleConfig stateWithComments]
      printOperand_imm_hex_comment [OF h5, of exampleConfig stateWithComments]
    by (simp add: stateWithComments_def exampleConfig_def markup_def formatImm_def
        formatDec_def utostr.simps utohexstr.simps digit_char_def narrowest_hex_width_def
        sign_extension_reproduces_def signed_take_bit_int_eq_self_iff)
qed

subsection \<open>Memory operands\<close>

lemma printOperand_Reg:
  "getOperand MI n = Inr (Reg r) \<Longrightarrow>
   printOperand cfg MI n st = Inr (st\<lparr>OS := OS st @ regNameText cfg r\<rparr>)"
  by (simp add: printOperand_def printRegName_def emit_def)

lemma printOptionalSegReg_Reg:
  "getOperand MI n = Inr (Reg sg) \<Longrightarrow>
   printOptionalSegReg cfg MI n st =
     Inr (st\<lparr>OS := OS st @ (if sg \<noteq> 0 then regNameText cfg sg @ '':'' else [])\<rparr>)"
  by (simp add: printOptionalSegReg_def printOperand_Reg emit_def)

lemma printMemReference_text:
  assumes base: "getOperand MI (Op + AddrBaseReg) = Inr (Reg b)"
    and index: "getOperand MI (Op + AddrIndexReg) = Inr (Reg i)"
    and disp: "getOperand MI (Op + AddrDisp) = Inr (Imm d)"
    and seg: "getOperand MI (Op + AddrSegmentReg) = Inr (Reg sg)"
    and scale: "i \<noteq> 0 \<Longrightarrow> getOperand MI (Op + AddrScaleAmt) = Inr (Imm s)"
  shows "printMemReference cfg MI Op st =
     Inr (st\<lparr>OS := OS st
            @ markup cfg ''<mem:''
            @ (if sg \<noteq> 0 then regNameText cfg sg @ '':'' else [])
            @ (if d \<noteq> 0 \<or> (i = 0 \<and> b = 0) then formatImm cfg d else [])
            @ (if i \<noteq> 0 \<or> b \<noteq> 0 then
                 ''('' @ (if b \<noteq> 0 then regNameText cfg b else [])
                 @ (if i \<noteq> 0 then
                      '','' @ regNameText cfg i
                      @ (if (ucast s :: 32 word) \<noteq> 1 then
                           '','' @ markup cfg ''<imm:'' @ utostr (unat (ucast s :: 32 word))
                           @ markup cfg ''>''
                         else [])
                    else [])
                 @ '')''
               else [])
            @ markup cfg ''>''\<rparr>)"
  using scale
  by (simp add: printMemReference_def base index disp printOptionalSegReg_Reg [OF seg]
      printOperand_Reg [OF base] printOperand_Reg [OF index] emit_def Let_def)

lemma formatDec_0: "formatDec 0 = ''0''"
  by (simp add: formatDec_def utostr.simps digit_char_def)

text \<open>
  C5. For a general-form memory operand whose displacement is an immediate, the
  displacement is written exactly when it is nonzero or both the base and the index
  register are absent. With no base, no index, no segment and displacement 0 the operand
  is the text \<open>0\<close> (decimal mode, no markup); with a base register, no index, no segment
  and displacement 0 it is the base in parentheses and nothing else.
\<close>

theorem printMemReference_displacement:
  assumes base: "getOperand MI (Op + AddrBaseReg) = Inr (Reg b)"
    and index: "getOperand MI (Op + AddrIndexReg) = Inr (Reg i)"
    and disp: "getOperand MI (Op + AddrDisp) = Inr (Imm d)"
    and seg: "getOperand MI (Op + AddrSegmentReg) = Inr (Reg sg)"
    and scale: "i \<noteq> 0 \<Longrightarrow> getOperand MI (Op + AddrScaleAmt) = Inr (Imm s)"
  shows "printMemReference cfg MI Op st =
           Inr (st\<lparr>OS := OS st @ markup cfg ''<mem:'' @ segmentText cfg sg
                  @ (if d \<noteq> 0 \<or> (b = 0 \<and> i = 0) then formatImm cfg d else [])
                  @ registersText cfg b i s @ markup cfg ''>''\<rparr>)
         \<and> (b = 0 \<and> i = 0 \<and> d = 0 \<and> sg = 0 \<and> \<not> UseMarkup cfg \<and> \<not> PrintImmHex cfg \<longrightarrow>
              printMemReference cfg MI Op st = Inr (st\<lparr>OS := OS st @ ''0''\<rparr>))
         \<and> (b \<noteq> 0 \<and> i = 0 \<and> d = 0 \<and> sg = 0 \<and> \<not> UseMarkup cfg \<longrightarrow>
              printMemReference cfg MI Op st =
                Inr (st\<lparr>OS := OS st @ ''(%'' @ getRegisterName cfg b @ '')''\<rparr>))"
  using scale
  by (auto simp: printMemReference_text [OF base index disp seg] segmentText_def
      registersText_def scaleText_def markup_def formatImm_def formatDec_0 regNameText_def)

text \<open>
  Three operands with no index and no segment: nothing present and displacement 0;
  a base register and displacement 0; a base register and displacement 8.
\<close>

theorem printMemReference_displacement_witness:
  "printMemReference exampleConfig
     (exampleInst (OtherOpcode 0) [Reg 0, Imm 1, Reg 0, Imm 0, Reg 0]) 0 stateNoComments =
     Inr (stateNoComments\<lparr>OS := ''0''\<rparr>) \<and>
   printMemReference exampleConfig
     (exampleInst (OtherOpcode 0) [Reg 5, Imm 1, Reg 0, Imm 0, Reg 0]) 0 stateNoComments =
     Inr (stateNoComments\<lparr>OS := ''(%r5)''\<rparr>) \<and>
   printMemReference exampleConfig
     (exampleInst (OtherOpcode 0) [Reg 5, Imm 1, Reg 0, Imm 8, Reg 0]) 0 stateNoComments =
     Inr (stateNoComments\<lparr>OS := ''8(%r5)''\<rparr>)"
proof -
  have ops: "\<And>ops n. n < length ops \<Longrightarrow>
      getOperand (exampleInst (OtherOpcode 0) ops) n = Inr (ops ! n)"
    by (simp add: getOperand_def exampleInst_def)
  note addr = AddrBaseReg_def AddrIndexReg_def AddrDisp_def AddrSegmentReg_def AddrScaleAmt_def
  note ev = stateNoComments_def exampleConfig_def markup_def formatImm_def formatDec_def
    utostr.simps digit_char_def regNameText_def segmentText_def registersText_def scaleText_def
  have a: "printMemReference exampleConfig
      (exampleInst (OtherOpcode 0) [Reg 0, Imm 1, Reg 0, Imm 0, Reg 0]) 0 stateNoComments =
      Inr (stateNoComments\<lparr>OS := ''0''\<rparr>)"
    using printMemReference_displacement
      [of "exampleInst (OtherOpcode 0) [Reg 0, Imm 1, Reg 0, Imm 0, Reg 0]" 0 0 0 0 0 1
        exampleConfig stateNoComments]
    by (simp add: ops addr ev)
  have b: "printMemReference exampleConfig
      (exampleInst (OtherOpcode 0) [Reg 5, Imm 1, Reg 0, Imm 0, Reg 0]) 0 stateNoComments =
      Inr (stateNoComments\<lparr>OS := ''(%r5)''\<rparr>)"
    using printMemReference_displacement
      [of "exampleInst (OtherOpcode 0) [Reg 5, Imm 1, Reg 0, Imm 0, Reg 0]" 0 5 0 0 0 1
        exampleConfig stateNoComments]
    by (simp add: ops addr ev)
  have c: "printMemReference exampleConfig
      (exampleInst (OtherOpcode 0) [Reg 5, Imm 1, Reg 0, Imm 8, Reg 0]) 0 stateNoComments =
      Inr (stateNoComments\<lparr>OS := ''8(%r5)''\<rparr>)"
    using printMemReference_displacement
      [of "exampleInst (OtherOpcode 0) [Reg 5, Imm 1, Reg 0, Imm 8, Reg 0]" 0 5 0 8 0 1
        exampleConfig stateNoComments]
    by (simp add: ops addr ev)
  from a b c show ?thesis by simp
qed









subsection \<open>The 8-bit masked immediate\<close>

lemma and_0xff_unat: "unat ((v :: 64 word) AND 0xff) = unat v mod 256"
proof -
  have "(0xff :: 64 word) = mask 8"
    by (simp add: mask_eq_exp_minus_1)
  then have "v AND 0xff = take_bit 8 v"
    by (simp add: take_bit_eq_mask)
  then show ?thesis
    by (simp add: unsigned_take_bit_eq take_bit_eq_mod unat_mod_distrib)
qed

text \<open>
  C7. The 8-bit masked immediate formatter prints an expression operand exactly as the
  plain operand formatter does, unmasked; it prints an immediate operand after masking
  the value to its low 8 bits, so the immediate 0x1FF is formatted as 0xFF.
\<close>

theorem printU8Imm_masks_immediates:
  "(getOperand MI Op = Inr (Expr e) \<longrightarrow>
      printU8Imm cfg MI Op st = printOperand cfg MI Op st
      \<and> printU8Imm cfg MI Op st =
          Inr (st\<lparr>OS := OS st @ markup cfg ''<imm:'' @ ''$'' @ printExpr cfg e
                   @ markup cfg ''>''\<rparr>))
   \<and> (getOperand MI Op = Inr (Imm v) \<longrightarrow>
        printU8Imm cfg MI Op st =
          Inr (st\<lparr>OS := OS st @ markup cfg ''<imm:'' @ ''$'' @ formatImm cfg (v AND 0xff)
                   @ markup cfg ''>''\<rparr>)
        \<and> unat (v AND 0xff) = unat v mod 256)
   \<and> (getOperand MI Op = Inr (Imm 0x1FF) \<longrightarrow>
        printU8Imm cfg MI Op st =
          Inr (st\<lparr>OS := OS st @ markup cfg ''<imm:'' @ ''$'' @ formatImm cfg 0xFF
                   @ markup cfg ''>''\<rparr>))"
  by (simp add: printU8Imm_def printOperand_def emit_def and_0xff_unat)

text \<open>
  The immediate 0x1FF in decimal and in hexadecimal mode, and a constant expression of
  the same value.
\<close>

theorem printU8Imm_masks_immediates_witness:
  "printU8Imm exampleConfig (exampleInst (OtherOpcode 0) [Imm 0x1FF]) 0 stateWithComments =
     Inr (stateWithComments\<lparr>OS := ''$255''\<rparr>) \<and>
   printU8Imm (exampleConfig\<lparr>PrintImmHex := True\<rparr>)
     (exampleInst (OtherOpcode 0) [Imm 0x1FF]) 0 stateWithComments =
     Inr (stateWithComments\<lparr>OS := ''$0xFF''\<rparr>) \<and>
   printU8Imm exampleConfig
     (exampleInst (OtherOpcode 0) [Expr (MCConstantExpr 0x1FF)]) 0 stateWithComments =
     Inr (stateWithComments\<lparr>OS := ''$511''\<rparr>)"
proof -
  have ops: "\<And>ops n. n < length ops \<Longrightarrow>
      getOperand (exampleInst (OtherOpcode 0) ops) n = Inr (ops ! n)"
    by (simp add: getOperand_def exampleInst_def)
  note ev = stateWithComments_def exampleConfig_def markup_def formatImm_def formatDec_def
    exampleFormatHex_def utostr.simps utohexstr.simps digit_char_def printOperand_def emit_def
  show ?thesis
    using printU8Imm_masks_immediates
      [where MI = "exampleInst (OtherOpcode 0) [Imm 0x1FF]" and Op = 0 and v = "0x1FF"
         and cfg = exampleConfig and st = stateWithComments]
      printU8Imm_masks_immediates
      [where MI = "exampleInst (OtherOpcode 0) [Imm 0x1FF]" and Op = 0 and v = "0x1FF"
         and cfg = "exampleConfig\<lparr>PrintImmHex := True\<rparr>" and st = stateWithComments]
      printU8Imm_masks_immediates
      [where MI = "exampleInst (OtherOpcode 0) [Expr (MCConstantExpr 0x1FF)]" and Op = 0
         and e = "MCConstantExpr 0x1FF" and cfg = exampleConfig and st = stateWithComments]
    by (simp add: ops ev)
qed

subsection \<open>Source-index and destination-index forms\<close>

lemma printOperand_cong:
  "getOperand MI n = getOperand MI' n \<Longrightarrow> printOperand cfg MI n st = printOperand cfg MI' n st"
  by (simp add: printOperand_def)

text \<open>
  C8. The destination-index form writes \<open>%es:\<close> and its one operand in parentheses; it
  reads no other operand, so two instructions that agree on that operand print alike
  whatever follows it. The source-index form reads the operand at the next index as an
  optional segment register: it writes the segment prefix when that register is a real
  one, and aborts when the operand is missing.
\<close>

theorem index_forms_segment:
  "(getOperand MI Op = Inr (Reg r) \<longrightarrow>
      printDstIdx cfg MI Op st =
        Inr (st\<lparr>OS := OS st @ markup cfg ''<mem:'' @ ''%es:('' @ regNameText cfg r @ '')''
                 @ markup cfg ''>''\<rparr>))
   \<and> (getOperand MI Op = getOperand MI' Op \<longrightarrow>
        printDstIdx cfg MI Op st = printDstIdx cfg MI' Op st)
   \<and> (getOperand MI Op = Inr (Reg r) \<and> getOperand MI (Op + 1) = Inr (Reg sg) \<longrightarrow>
        printSrcIdx cfg MI Op st =
          Inr (st\<lparr>OS := OS st @ markup cfg ''<mem:'' @ segmentText cfg sg
                   @ ''('' @ regNameText cfg r @ '')'' @ markup cfg ''>''\<rparr>))
   \<and> (getOperand MI (Op + 1) = Inl a \<longrightarrow> printSrcIdx cfg MI Op st = Inl a)"
proof (intro conjI impI)
  assume "getOperand MI Op = Inr (Reg r)"
  then show "printDstIdx cfg MI Op st =
      Inr (st\<lparr>OS := OS st @ markup cfg ''<mem:'' @ ''%es:('' @ regNameText cfg r @ '')''
               @ markup cfg ''>''\<rparr>)"
    by (simp add: printDstIdx_def printOperand_Reg emit_def)
next
  assume "getOperand MI Op = getOperand MI' Op"
  then show "printDstIdx cfg MI Op st = printDstIdx cfg MI' Op st"
    by (simp add: printDstIdx_def emit_def printOperand_cong [of MI Op MI'])
next
  assume "getOperand MI Op = Inr (Reg r) \<and> getOperand MI (Op + 1) = Inr (Reg sg)"
  then show "printSrcIdx cfg MI Op st =
      Inr (st\<lparr>OS := OS st @ markup cfg ''<mem:'' @ segmentText cfg sg
               @ ''('' @ regNameText cfg r @ '')'' @ markup cfg ''>''\<rparr>)"
    by (simp add: printSrcIdx_def printOperand_Reg printOptionalSegReg_Reg emit_def
        segmentText_def)
next
  assume "getOperand MI (Op + 1) = Inl a"
  then show "printSrcIdx cfg MI Op st = Inl a"
    by (simp add: printSrcIdx_def printOptionalSegReg_def emit_def)
qed

text \<open>
  Register 7 as the operand and, after it, register 3 or no register: the
  destination-index form prints the same text for both, the source-index form does not.
\<close>

theorem index_forms_segment_witness:
  "printDstIdx exampleConfig (exampleInst (OtherOpcode 0) [Reg 7, Reg 3]) 0 stateNoComments =
     Inr (stateNoComments\<lparr>OS := ''%es:(%r7)''\<rparr>) \<and>
   printDstIdx exampleConfig (exampleInst (OtherOpcode 0) [Reg 7, Reg 0]) 0 stateNoComments =
     Inr (stateNoComments\<lparr>OS := ''%es:(%r7)''\<rparr>) \<and>
   printSrcIdx exampleConfig (exampleInst (OtherOpcode 0) [Reg 7, Reg 3]) 0 stateNoComments =
     Inr (stateNoComments\<lparr>OS := ''%r3:(%r7)''\<rparr>) \<and>
   printSrcIdx exampleConfig (exampleInst (OtherOpcode 0) [Reg 7, Reg 0]) 0 stateNoComments =
     Inr (stateNoComments\<lparr>OS := ''(%r7)''\<rparr>) \<and>
   printSrcIdx exampleConfig (exampleInst (OtherOpcode 0) [Reg 7]) 0 stateNoComments =
     Inl (AssertionFailed ''idx < size()'')"
proof -
  have ops: "\<And>ops n. n < length ops \<Longrightarrow>
      getOperand (exampleInst (OtherOpcode 0) ops) n = Inr (ops ! n)"
    by (simp add: getOperand_def exampleInst_def)
  have missing: "getOperand (exampleInst (OtherOpcode 0) [Reg 7]) (0 + 1) =
      Inl (AssertionFailed ''idx < size()'')"
    by (simp add: getOperand_def exampleInst_def)
  note ev = stateNoComments_def exampleConfig_def markup_def utostr.simps digit_char_def
    regNameText_def segmentText_def
  show ?thesis
    using index_forms_segment
      [where MI = "exampleInst (OtherOpcode 0) [Reg 7, Reg 3]" and Op = 0 and r = 7
         and sg = 3 and cfg = exampleConfig and st = stateNoComments
         and MI' = "exampleInst (OtherOpcode 0) [Reg 7, Reg 0]"]
      index_forms_segment
      [where MI = "exampleInst (OtherOpcode 0) [Reg 7, Reg 0]" and Op = 0 and r = 7
         and sg = 0 and cfg = exampleConfig and st = stateNoComments
         and MI' = "exampleInst (OtherOpcode 0) [Reg 7, Reg 0]"]
      index_forms_segment
      [where MI = "exampleInst (OtherOpcode 0) [Reg 7]" and Op = 0 and r = 7
         and cfg = exampleConfig and st = stateNoComments
         and a = "AssertionFailed ''idx < size()''"
         and MI' = "exampleInst (OtherOpcode 0) [Reg 7]"]
      missing
    by (simp add: ops ev)
qed

subsection \<open>The vector-compare resolver\<close>

lemma seq_append: "seq (ps @ qs) st = bindA (seq ps st) (seq qs)"
  by (induction ps arbitrary: st) (auto simp: bindA_def split: sum.splits)

lemma seq_nested: "seq (ps @ seq qs # rs) st = seq (ps @ qs @ rs) st"
proof -
  have "seq (seq qs # rs) = seq (qs @ rs)"
    by (rule ext) (simp add: seq_append)
  then show ?thesis
    by (simp add: seq_append [of ps])
qed

lemma trailingImm_Some:
  assumes "trailingImm MI = Some i"
  shows "\<exists>v. getNumOperands MI \<noteq> 0
           \<and> getOperand MI (getNumOperands MI - 1) = Inr (Imm v) \<and> sint v = i"
proof (cases "Operands MI" rule: rev_cases)
  case Nil
  with assms show ?thesis by (simp add: trailingImm_def)
next
  case (snoc xs x)
  with assms show ?thesis
    by (cases x) (simp_all add: trailingImm_def getNumOperands_def getOperand_def)
qed

lemma trailingImm_None:
  assumes "trailingImm MI = None"
  shows "printVecCompareInstr cfg MI st = Inr (False, st)"
proof (cases "Operands MI" rule: rev_cases)
  case Nil
  then show ?thesis by (simp add: printVecCompareInstr_def getNumOperands_def)
next
  case (snoc xs x)
  with assms show ?thesis
    by (cases x)
      (simp_all add: trailingImm_def printVecCompareInstr_def getNumOperands_def getOperand_def)
qed

lemma VPCOM_not_VPCMP: "isVPCOMcase opc \<Longrightarrow> \<not> isVPCMPcase opc"
  by (cases opc) simp_all

lemma VPCOM_handled:
  assumes "isVPCOMcase (Opcode MI)" and "legalFamilyA MI"
  shows "printVecCompareInstr cfg MI st =
     returning True (seq [
       emit [CHR 0x09],
       emit (printVPCOMMnemonic cfg MI),
       if TSFlags cfg (Opcode MI) AND FormMask (X86II_consts cfg) = MRMSrcMem (X86II_consts cfg)
       then printxmmwordmem cfg MI 2 else printOperand cfg MI 2,
       emit '', '',
       printOperand cfg MI 1,
       emit '', '',
       printOperand cfg MI 0]) st"
proof -
  from assms(2) obtain i where i: "trailingImm MI = Some i" "0 \<le> i" "i \<le> 7"
    by (auto simp: legalFamilyA_def split: option.splits)
  from trailingImm_Some [OF i(1)] obtain v where
    v: "getNumOperands MI \<noteq> 0" "getOperand MI (getNumOperands MI - 1) = Inr (Imm v)"
      "sint v = i"
    by blast
  show ?thesis
    using assms(1) i(2,3) v by (simp add: printVecCompareInstr_def Let_def)
qed

lemma VPCOM_declined:
  assumes "isVPCOMcase (Opcode MI)" and "\<not> legalFamilyA MI"
  shows "printVecCompareInstr cfg MI st = Inr (False, st)"
proof (cases "trailingImm MI")
  case None
  then show ?thesis by (rule trailingImm_None)
next
  case (Some i)
  from trailingImm_Some [OF Some] obtain v where
    v: "getNumOperands MI \<noteq> 0" "getOperand MI (getNumOperands MI - 1) = Inr (Imm v)"
      "sint v = i"
    by blast
  show ?thesis
    using assms Some v by (auto simp: printVecCompareInstr_def Let_def legalFamilyA_def)
qed

lemma VPCMP_handled:
  assumes "isVPCMPcase (Opcode MI)" and "legalFamilyB MI"
  shows "printVecCompareInstr cfg MI st =
     returning True
       (if hasFlag (TSFlags cfg (Opcode MI)) (EVEX_K (X86II_consts cfg)) then
          seq [emit [CHR 0x09], emit (printVPCMPMnemonic cfg MI),
               printVPCMPSource cfg MI 3, emit '', '',
               printOperand cfg MI 2, emit '', '',
               printOperand cfg MI 0,
               emit '' {'', printOperand cfg MI 1, emit ''}'']
        else
          seq [emit [CHR 0x09], emit (printVPCMPMnemonic cfg MI),
               printVPCMPSource cfg MI 2, emit '', '',
               printOperand cfg MI 1, emit '', '',
               printOperand cfg MI 0]) st"
proof -
  from assms(2) obtain i where
    i: "trailingImm MI = Some i" "(0 \<le> i \<and> i \<le> 2) \<or> (4 \<le> i \<and> i \<le> 6)"
    by (auto simp: legalFamilyB_def split: option.splits)
  from trailingImm_Some [OF i(1)] obtain v where
    v: "getNumOperands MI \<noteq> 0" "getOperand MI (getNumOperands MI - 1) = Inr (Imm v)"
      "sint v = i"
    by blast
  have notA: "\<not> isVPCOMcase (Opcode MI)"
    using assms(1) VPCOM_not_VPCMP by blast
  have flat: "seq [a, b, c, d, e, f, g, seq [x, y, z]] s = seq [a, b, c, d, e, f, g, x, y, z] s"
    for a b c d e f g x y z s
    using seq_nested [of "[a, b, c, d, e, f, g]" "[x, y, z]" "[]" s] by simp
  have last_skip: "seq [a, b, c, d, e, f, g, seq []] s = seq [a, b, c, d, e, f, g] s"
    for a b c d e f g s
    using seq_nested [of "[a, b, c, d, e, f, g]" "[]" "[]" s] by simp
  show ?thesis
    using assms(1) notA i(2) v
    by (simp add: printVecCompareInstr_def Let_def returning_def flat last_skip
        del: seq.simps)
qed

lemma VPCMP_declined:
  assumes "isVPCMPcase (Opcode MI)" and "\<not> legalFamilyB MI"
  shows "printVecCompareInstr cfg MI st = Inr (False, st)"
proof (cases "trailingImm MI")
  case None
  then show ?thesis by (rule trailingImm_None)
next
  case (Some i)
  from trailingImm_Some [OF Some] obtain v where
    v: "getNumOperands MI \<noteq> 0" "getOperand MI (getNumOperands MI - 1) = Inr (Imm v)"
      "sint v = i"
    by blast
  have notA: "\<not> isVPCOMcase (Opcode MI)"
    using assms(1) VPCOM_not_VPCMP by blast
  show ?thesis
    using assms notA Some v by (auto simp: printVecCompareInstr_def Let_def legalFamilyB_def)
qed

lemma returning_True_not_declined: "\<not> declined (returning True p st)"
  by (cases "p st") (simp_all add: declined_def returning_def)




lemma NumElts_cases: "NumElts II flags \<in> {2, 4, 8, 16}"
  by (simp add: NumElts_def)

lemma utostr_NumElts:
  "utostr (NumElts II flags) \<in> {''2'', ''4'', ''8'', ''16''}"
  by (simp add: NumElts_def utostr.simps digit_char_def)

lemma declined_False: "declined (Inr (False, st))"
  by (simp add: declined_def)

lemma family_not_exception:
  "isVPCOMcase opc \<or> isVPCMPcase opc \<Longrightarrow> opc \<noteq> CALLpcrel32 \<and> opc \<noteq> DATA16_PREFIX"
  by (cases opc) simp_all

lemma printDispatch_generic:
  assumes "AliasTemplate cfg MI = None"
    and "\<And>s. printVecCompareInstr cfg MI s = Inr (False, s)"
  shows "printDispatch cfg MI = printInstruction cfg MI"
  by (rule ext) (simp add: printDispatch_def printAliasInstr_def assms)

subsection \<open>What a call reads of the flag\<close>










































subsection \<open>Operand kinds the formatters do not accept\<close>

lemma printOperand_accepts:
  assumes "getOperand MI OpNo = Inr X" and "isReg X \<or> isImm X \<or> isExpr X"
  shows "\<not> isl (printOperand cfg MI OpNo st)"
  using assms
  by (cases X)
    (auto simp: printOperand_def printRegName_def emit_def printImmComment_def
      split: option.splits)




subsection \<open>The broadcast annotation\<close>

text \<open>
  C3, as the code has it. For a \<^verbatim>\<open>VPCMP\<close> instruction with a legal immediate whose
  source is a memory reference with the broadcast flag, the resolver prints the memory
  operand at the cursor through the formatter of the element loaded, a quadword with
  \<^verbatim>\<open>VEX_W\<close> and a doubleword without, and then \<open>{1toN}\<close>. In this dialect either
  formatter writes the memory reference and no size, so the element size is not in the
  text. \<open>N\<close> is 8 or 16 with \<^verbatim>\<open>EVEX_L2\<close>, else 4 or 8 with \<^verbatim>\<open>VEX_L\<close>, else 2 or 4, the
  smaller number when \<^verbatim>\<open>VEX_W\<close> is set: \<open>N\<close> elements of the size loaded fill the
  vector.
\<close>

theorem VPCMP_broadcast_annotation:
  fixes cfg :: PrinterConfig and MI :: MCInst
  defines "II \<equiv> X86II_consts cfg"
    and "flags \<equiv> TSFlags cfg (Opcode MI)"
  defines "W \<equiv> hasFlag flags (VEX_W II)"
    and "L \<equiv> hasFlag flags (VEX_L II)"
    and "L2 \<equiv> hasFlag flags (EVEX_L2 II)"
    and "CurOp \<equiv> (if hasFlag flags (EVEX_K II) then 3 else 2 :: nat)"
  assumes family: "isVPCMPcase (Opcode MI)"
    and legal: "legalFamilyB MI"
    and mem: "flags AND FormMask II = MRMSrcMem II"
    and bcast: "hasFlag flags (EVEX_B II)"
  shows "printVecCompareInstr cfg MI st =
           returning True
             (seq ([emit [CHR 0x09], emit (printVPCMPMnemonic cfg MI),
                    if W then printqwordmem cfg MI CurOp else printdwordmem cfg MI CurOp,
                    emit (''{1to'' @ utostr (NumElts II flags) @ ''}''),
                    emit '', '', printOperand cfg MI (CurOp - 1),
                    emit '', '', printOperand cfg MI 0]
                   @ (if hasFlag flags (EVEX_K II)
                      then [emit '' {'', printOperand cfg MI 1, emit ''}''] else []))) st
         \<and> NumElts II flags =
             (if L2 \<and> W then 8 else if L2 \<and> \<not> W then 16
              else if L \<and> W then 4 else if L \<and> \<not> W then 8
              else if W then 2 else 4)
         \<and> NumElts II flags \<in> {2, 4, 8, 16}
         \<and> ''{1to'' @ utostr (NumElts II flags) @ ''}''
             \<in> {''{1to2}'', ''{1to4}'', ''{1to8}'', ''{1to16}''}
         \<and> (if W then printqwordmem cfg MI CurOp else printdwordmem cfg MI CurOp)
             = printMemReference cfg MI CurOp
         \<and> broadcastLoadBits II flags = (if W then 64 else 32)
         \<and> NumElts II flags * broadcastLoadBits II flags = vectorLengthBits II flags"
proof (intro conjI)
  have src: "printVPCMPSource cfg MI c =
      seq [if W then printqwordmem cfg MI c else printdwordmem cfg MI c,
           emit (''{1to'' @ utostr (NumElts II flags) @ ''}'')]" for c
    using mem bcast by (simp add: printVPCMPSource_def II_def flags_def W_def Let_def)
  have flat: "seq (a # b # seq [m, e] # rs) s = seq (a # b # m # e # rs) s" for a b m e rs s
    using seq_nested [of "[a, b]" "[m, e]" rs s] by simp
  show "printVecCompareInstr cfg MI st =
           returning True
             (seq ([emit [CHR 0x09], emit (printVPCMPMnemonic cfg MI),
                    if W then printqwordmem cfg MI CurOp else printdwordmem cfg MI CurOp,
                    emit (''{1to'' @ utostr (NumElts II flags) @ ''}''),
                    emit '', '', printOperand cfg MI (CurOp - 1),
                    emit '', '', printOperand cfg MI 0]
                   @ (if hasFlag flags (EVEX_K II)
                      then [emit '' {'', printOperand cfg MI 1, emit ''}''] else []))) st"
    unfolding VPCMP_handled [OF family legal]
    by (simp add: src flat returning_def CurOp_def II_def [symmetric] flags_def [symmetric]
        del: seq.simps)
  show "NumElts II flags =
             (if L2 \<and> W then 8 else if L2 \<and> \<not> W then 16
              else if L \<and> W then 4 else if L \<and> \<not> W then 8
              else if W then 2 else 4)"
    by (simp add: NumElts_def W_def L_def L2_def)
  show "NumElts II flags \<in> {2, 4, 8, 16}"
    by (rule NumElts_cases)
  show "''{1to'' @ utostr (NumElts II flags) @ ''}''
             \<in> {''{1to2}'', ''{1to4}'', ''{1to8}'', ''{1to16}''}"
    using utostr_NumElts [of II flags] by auto
  show "(if W then printqwordmem cfg MI CurOp else printdwordmem cfg MI CurOp)
      = printMemReference cfg MI CurOp"
    by (rule ext) (simp add: printqwordmem_def printdwordmem_def)
  show "broadcastLoadBits II flags = (if W then 64 else 32)"
    by (simp add: broadcastLoadBits_def W_def)
  show "NumElts II flags * broadcastLoadBits II flags = vectorLengthBits II flags"
    by (simp add: NumElts_def broadcastLoadBits_def vectorLengthBits_def)
qed

text \<open>
  Three broadcast forms with immediate 5 and the memory operand \<open>8(%r5)\<close>:
  \<^verbatim>\<open>VPCMPDZrmib\<close> (sixteen doublewords), \<^verbatim>\<open>VPCMPQZ256rmibk\<close> (four quadwords, masked)
  and \<^verbatim>\<open>VPCMPUQZ128rmib\<close> (two quadwords).
\<close>

theorem VPCMP_broadcast_annotation_witness:
  "printVecCompareInstr exampleConfig
     (exampleInst (VPCMP Elt_D Len_Z F_rmib)
        [Reg 10, Reg 4, Reg 5, Imm 1, Reg 0, Imm 8, Reg 0, Imm 5])
     stateNoComments =
     Inr (True, stateNoComments\<lparr>OS := [CHR 0x09] @ ''vpcmpnltd'' @ [CHR 0x09]
                                     @ ''8(%r5){1to16}, %r4, %r10''\<rparr>) \<and>
   printVecCompareInstr exampleConfig
     (exampleInst (VPCMP Elt_Q Len_Z256 F_rmibk)
        [Reg 10, Reg 11, Reg 4, Reg 5, Imm 1, Reg 0, Imm 8, Reg 0, Imm 5])
     stateNoComments =
     Inr (True, stateNoComments\<lparr>OS := [CHR 0x09] @ ''vpcmpnltd'' @ [CHR 0x09]
                                     @ ''8(%r5){1to4}, %r4, %r10 {%r11}''\<rparr>) \<and>
   printVecCompareInstr exampleConfig
     (exampleInst (VPCMP Elt_UQ Len_Z128 F_rmib)
        [Reg 10, Reg 4, Reg 5, Imm 1, Reg 0, Imm 8, Reg 0, Imm 5])
     stateNoComments =
     Inr (True, stateNoComments\<lparr>OS := [CHR 0x09] @ ''vpcmpnltd'' @ [CHR 0x09]
                                     @ ''8(%r5){1to2}, %r4, %r10''\<rparr>)"
proof -
  have ops: "\<And>opc ops n. n < length ops \<Longrightarrow>
      getOperand (exampleInst opc ops) n = Inr (ops ! n)"
    by (simp add: getOperand_def exampleInst_def)
  have opc: "\<And>opc ops. Opcode (exampleInst opc ops) = opc"
    by (simp add: exampleInst_def)
  have legal: "\<And>opc ops. legalFamilyB (exampleInst opc (ops @ [Imm 5]))"
    by (simp add: legalFamilyB_def trailingImm_def exampleInst_def)
  have mem2: "printMemReference exampleConfig
      (exampleInst opc [Reg 10, Reg 4, Reg 5, Imm 1, Reg 0, Imm 8, Reg 0, Imm 5]) 2 s =
      Inr (s\<lparr>OS := OS s @ ''8(%r5)''\<rparr>)" for opc s
    using printMemReference_text
      [of "exampleInst opc [Reg 10, Reg 4, Reg 5, Imm 1, Reg 0, Imm 8, Reg 0, Imm 5]"
        2 5 0 8 0 1 exampleConfig s]
    by (simp add: ops AddrBaseReg_def AddrIndexReg_def AddrDisp_def AddrSegmentReg_def
        AddrScaleAmt_def exampleConfig_def markup_def formatImm_def formatDec_def
        utostr.simps digit_char_def regNameText_def)
  have mem3: "printMemReference exampleConfig
      (exampleInst opc [Reg 10, Reg 11, Reg 4, Reg 5, Imm 1, Reg 0, Imm 8, Reg 0, Imm 5]) 3 s =
      Inr (s\<lparr>OS := OS s @ ''8(%r5)''\<rparr>)" for opc s
    using printMemReference_text
      [of "exampleInst opc [Reg 10, Reg 11, Reg 4, Reg 5, Imm 1, Reg 0, Imm 8, Reg 0, Imm 5]"
        3 5 0 8 0 1 exampleConfig s]
    by (simp add: ops AddrBaseReg_def AddrIndexReg_def AddrDisp_def AddrSegmentReg_def
        AddrScaleAmt_def exampleConfig_def markup_def formatImm_def formatDec_def
        utostr.simps digit_char_def regNameText_def)
  have cfg: "X86II_consts exampleConfig = exampleII" "TSFlags exampleConfig = exampleTSFlags"
    "printVPCMPMnemonic exampleConfig = (\<lambda>MI. ''vpcmpnltd'' @ [CHR 0x09])"
    "getRegisterName exampleConfig = (\<lambda>r. ''r'' @ utostr r)"
    "UseMarkup exampleConfig = False"
    by (simp_all add: exampleConfig_def)
  note ev = stateNoComments_def cfg exampleII_def markup_def utostr.simps NumElts_def
    digit_char_def regNameText_def hasFlag_def returning_def emit_def
    printOperand_Reg printqwordmem_def printdwordmem_def mem2 mem3
  have a: "printVecCompareInstr exampleConfig
      (exampleInst (VPCMP Elt_D Len_Z F_rmib)
         [Reg 10, Reg 4, Reg 5, Imm 1, Reg 0, Imm 8, Reg 0, Imm 5])
      stateNoComments =
      Inr (True, stateNoComments\<lparr>OS := [CHR 0x09] @ ''vpcmpnltd'' @ [CHR 0x09]
                                      @ ''8(%r5){1to16}, %r4, %r10''\<rparr>)"
    using VPCMP_broadcast_annotation
      [of "exampleInst (VPCMP Elt_D Len_Z F_rmib)
            [Reg 10, Reg 4, Reg 5, Imm 1, Reg 0, Imm 8, Reg 0, Imm 5]"
        exampleConfig stateNoComments]
      legal [of _ "[Reg 10, Reg 4, Reg 5, Imm 1, Reg 0, Imm 8, Reg 0]"]
    by (simp add: ops opc ev)
  have b: "printVecCompareInstr exampleConfig
      (exampleInst (VPCMP Elt_Q Len_Z256 F_rmibk)
         [Reg 10, Reg 11, Reg 4, Reg 5, Imm 1, Reg 0, Imm 8, Reg 0, Imm 5])
      stateNoComments =
      Inr (True, stateNoComments\<lparr>OS := [CHR 0x09] @ ''vpcmpnltd'' @ [CHR 0x09]
                                      @ ''8(%r5){1to4}, %r4, %r10 {%r11}''\<rparr>)"
    using VPCMP_broadcast_annotation
      [of "exampleInst (VPCMP Elt_Q Len_Z256 F_rmibk)
            [Reg 10, Reg 11, Reg 4, Reg 5, Imm 1, Reg 0, Imm 8, Reg 0, Imm 5]"
        exampleConfig stateNoComments]
      legal [of _ "[Reg 10, Reg 11, Reg 4, Reg 5, Imm 1, Reg 0, Imm 8, Reg 0]"]
    by (simp add: ops opc ev)
  have c: "printVecCompareInstr exampleConfig
      (exampleInst (VPCMP Elt_UQ Len_Z128 F_rmib)
         [Reg 10, Reg 4, Reg 5, Imm 1, Reg 0, Imm 8, Reg 0, Imm 5])
      stateNoComments =
      Inr (True, stateNoComments\<lparr>OS := [CHR 0x09] @ ''vpcmpnltd'' @ [CHR 0x09]
                                      @ ''8(%r5){1to2}, %r4, %r10''\<rparr>)"
    using VPCMP_broadcast_annotation
      [of "exampleInst (VPCMP Elt_UQ Len_Z128 F_rmib)
            [Reg 10, Reg 4, Reg 5, Imm 1, Reg 0, Imm 8, Reg 0, Imm 5]"
        exampleConfig stateNoComments]
      legal [of _ "[Reg 10, Reg 4, Reg 5, Imm 1, Reg 0, Imm 8, Reg 0]"]
    by (simp add: ops opc ev)
  from a b c show ?thesis by simp
qed

text \<open>
  With the width flag the element loaded is a quadword, neither a word nor a doubleword
  (\<^verbatim>\<open>VPCMPQZ256rmib\<close>), and without it a doubleword (\<^verbatim>\<open>VPCMPDZ128rmib\<close>); the two
  instructions, each broadcasting four elements from \<open>8(%r5)\<close>, print the same source
  text, which names no element size.
\<close>

theorem broadcast_element_size_counterexample:
  "broadcastLoadBits exampleII (exampleTSFlags (VPCMP Elt_Q Len_Z256 F_rmib)) = 64 \<and>
   broadcastLoadBits exampleII (exampleTSFlags (VPCMP Elt_D Len_Z128 F_rmib)) = 32 \<and>
   printVPCMPSource exampleConfig
     (exampleInst (VPCMP Elt_Q Len_Z256 F_rmib)
        [Reg 10, Reg 4, Reg 5, Imm 1, Reg 0, Imm 8, Reg 0, Imm 5]) 2 stateNoComments =
     Inr (stateNoComments\<lparr>OS := ''8(%r5){1to4}''\<rparr>) \<and>
   printVPCMPSource exampleConfig
     (exampleInst (VPCMP Elt_D Len_Z128 F_rmib)
        [Reg 10, Reg 4, Reg 5, Imm 1, Reg 0, Imm 8, Reg 0, Imm 5]) 2 stateNoComments =
     Inr (stateNoComments\<lparr>OS := ''8(%r5){1to4}''\<rparr>)"
proof -
  have ops: "\<And>opc ops n. n < length ops \<Longrightarrow>
      getOperand (exampleInst opc ops) n = Inr (ops ! n)"
    by (simp add: getOperand_def exampleInst_def)
  have opc: "\<And>opc ops. Opcode (exampleInst opc ops) = opc"
    by (simp add: exampleInst_def)
  have mem2: "printMemReference exampleConfig
      (exampleInst opc [Reg 10, Reg 4, Reg 5, Imm 1, Reg 0, Imm 8, Reg 0, Imm 5]) 2 s =
      Inr (s\<lparr>OS := OS s @ ''8(%r5)''\<rparr>)" for opc s
    using printMemReference_text
      [of "exampleInst opc [Reg 10, Reg 4, Reg 5, Imm 1, Reg 0, Imm 8, Reg 0, Imm 5]"
        2 5 0 8 0 1 exampleConfig s]
    by (simp add: ops AddrBaseReg_def AddrIndexReg_def AddrDisp_def AddrSegmentReg_def
        AddrScaleAmt_def exampleConfig_def markup_def formatImm_def formatDec_def
        utostr.simps digit_char_def regNameText_def)
  have cfg: "X86II_consts exampleConfig = exampleII" "TSFlags exampleConfig = exampleTSFlags"
    by (simp_all add: exampleConfig_def)
  show ?thesis
    by (simp add: broadcastLoadBits_def printVPCMPSource_def opc cfg exampleII_def
        hasFlag_def NumElts_def utostr.simps digit_char_def printqwordmem_def
        printdwordmem_def mem2 emit_def stateNoComments_def)
qed

subsection \<open>What the resolver handles and what it declines\<close>

lemma succeeds_emit: "succeeds (emit x)"
  by (simp add: succeeds_def emit_def)

lemma succeeds_seq: "list_all succeeds ps \<Longrightarrow> succeeds (seq ps)"
proof (induction ps)
  case Nil
  then show ?case by (simp add: succeeds_def)
next
  case (Cons p ps)
  then have p: "succeeds p" and ps: "succeeds (seq ps)"
    by simp_all
  show ?case
    unfolding succeeds_def
  proof
    fix st
    from p obtain s where "p st = Inr s"
      by (cases "p st") (auto simp: succeeds_def dest: spec [of _ st])
    then show "\<not> isl (seq (p # ps) st)"
      using ps by (simp add: succeeds_def)
  qed
qed

lemma succeeds_printOperand:
  assumes "plainOperand MI n"
  shows "succeeds (printOperand cfg MI n)"
proof -
  from assms obtain X where "getOperand MI n = Inr X" and "isReg X \<or> isImm X \<or> isExpr X"
    by (cases "getOperand MI n") (simp_all add: plainOperand_def)
  then show ?thesis
    by (simp add: succeeds_def printOperand_accepts)
qed

lemma operandIs_isReg: "operandIs isReg MI n \<Longrightarrow> \<exists>r. getOperand MI n = Inr (Reg r)"
  unfolding operandIs_def
  by (cases "getOperand MI n") (auto elim: isReg.elims)

lemma operandIs_isImm: "operandIs isImm MI n \<Longrightarrow> \<exists>v. getOperand MI n = Inr (Imm v)"
  unfolding operandIs_def
  by (cases "getOperand MI n") (auto elim: isImm.elims)

lemma operandIs_isExpr: "operandIs isExpr MI n \<Longrightarrow> \<exists>e. getOperand MI n = Inr (Expr e)"
  unfolding operandIs_def
  by (cases "getOperand MI n") (auto elim: isExpr.elims)

lemma printMemReference_Expr_runs:
  assumes base: "getOperand MI (Op + AddrBaseReg) = Inr (Reg b)"
    and index: "getOperand MI (Op + AddrIndexReg) = Inr (Reg i)"
    and disp: "getOperand MI (Op + AddrDisp) = Inr (Expr e)"
    and seg: "getOperand MI (Op + AddrSegmentReg) = Inr (Reg sg)"
    and scale: "getOperand MI (Op + AddrScaleAmt) = Inr (Imm s)"
  shows "\<not> isl (printMemReference cfg MI Op st)"
  by (simp add: printMemReference_def base index disp scale printOptionalSegReg_Reg [OF seg]
      printOperand_Reg [OF base] printOperand_Reg [OF index] emit_def Let_def)

lemma succeeds_printMemReference:
  assumes "memoryOperand MI n"
  shows "succeeds (printMemReference cfg MI n)"
proof -
  from assms obtain b s i sg where
    g: "getOperand MI (n + AddrBaseReg) = Inr (Reg b)"
      "getOperand MI (n + AddrScaleAmt) = Inr (Imm s)"
      "getOperand MI (n + AddrIndexReg) = Inr (Reg i)"
      "getOperand MI (n + AddrSegmentReg) = Inr (Reg sg)"
    unfolding memoryOperand_def
    by (blast dest: operandIs_isReg operandIs_isImm)
  from assms consider d where "getOperand MI (n + AddrDisp) = Inr (Imm d)"
    | e where "getOperand MI (n + AddrDisp) = Inr (Expr e)"
    unfolding memoryOperand_def
    by (blast dest: operandIs_isImm operandIs_isExpr)
  then show ?thesis
  proof cases
    case 1
    show ?thesis
      unfolding succeeds_def
      by (simp add: printMemReference_text [OF g(1) g(3) 1 g(4) g(2)])
  next
    case 2
    show ?thesis
      unfolding succeeds_def
      using printMemReference_Expr_runs [OF g(1) g(3) 2 g(4) g(2)] by simp
  qed
qed

lemma succeeds_printVPCMPSource:
  "sourceOperand cfg MI n \<Longrightarrow> succeeds (printVPCMPSource cfg MI n)"
  by (simp add: sourceOperand_def printVPCMPSource_def Let_def succeeds_seq succeeds_emit
      succeeds_printOperand succeeds_printMemReference [THEN succeeds_def [THEN iffD1]]
      printqwordmem_def [abs_def] printdwordmem_def [abs_def] printxmmwordmem_def [abs_def]
      printymmwordmem_def [abs_def] printzmmwordmem_def [abs_def]
      succeeds_printMemReference split: if_splits)

lemma handled_returning: "succeeds p \<Longrightarrow> handled (returning True p st)"
  by (cases "p st") (auto simp: handled_def returning_def succeeds_def dest: spec [of _ st])

lemma not_handled_False: "\<not> handled (Inr (False, st))"
  by (simp add: handled_def)

lemma VPCOM_handled_shape:
  assumes "isVPCOMcase (Opcode MI)" and "legalFamilyA MI" and "declaredShapeA cfg MI"
  shows "handled (printVecCompareInstr cfg MI st)"
proof -
  have "succeeds (seq [
       emit [CHR 0x09],
       emit (printVPCOMMnemonic cfg MI),
       if TSFlags cfg (Opcode MI) AND FormMask (X86II_consts cfg) = MRMSrcMem (X86II_consts cfg)
       then printxmmwordmem cfg MI 2 else printOperand cfg MI 2,
       emit '', '',
       printOperand cfg MI 1,
       emit '', '',
       printOperand cfg MI 0])"
    using assms(3)
    by (intro succeeds_seq)
      (auto simp: declaredShapeA_def sourceOperand_def succeeds_emit succeeds_printOperand
        succeeds_printMemReference printxmmwordmem_def [abs_def] split: if_splits)
  then show ?thesis
    unfolding VPCOM_handled [OF assms(1,2)] by (rule handled_returning)
qed

lemma VPCMP_handled_shape:
  assumes "isVPCMPcase (Opcode MI)" and "legalFamilyB MI" and "declaredShapeB cfg MI"
  shows "handled (printVecCompareInstr cfg MI st)"
proof -
  have "succeeds
       (if hasFlag (TSFlags cfg (Opcode MI)) (EVEX_K (X86II_consts cfg)) then
          seq [emit [CHR 0x09], emit (printVPCMPMnemonic cfg MI),
               printVPCMPSource cfg MI 3, emit '', '',
               printOperand cfg MI 2, emit '', '',
               printOperand cfg MI 0,
               emit '' {'', printOperand cfg MI 1, emit ''}'']
        else
          seq [emit [CHR 0x09], emit (printVPCMPMnemonic cfg MI),
               printVPCMPSource cfg MI 2, emit '', '',
               printOperand cfg MI 1, emit '', '',
               printOperand cfg MI 0])"
    using assms(3)
    by (auto simp: declaredShapeB_def succeeds_emit succeeds_printOperand
        succeeds_printVPCMPSource intro!: succeeds_seq split: if_splits)
  then show ?thesis
    unfolding VPCMP_handled [OF assms(1,2)] by (rule handled_returning)
qed

text \<open>
  C2. On an opcode of either family the resolver declines, returning not-handled with
  nothing written and without aborting, exactly when the trailing operand is not an
  immediate in the family's legal range. When the immediate is legal the resolver takes
  its own path, the mnemonic and the operands in reverse order, and returns handled; on
  an instruction of the shape its descriptor declares, it returns handled exactly when
  the immediate is legal. When it declines and no alias matches, the print driver prints
  the instruction through the generic per-opcode template.
\<close>

theorem resolver_declines_iff_illegal:
  "(isVPCOMcase (Opcode MI) \<longrightarrow>
      (declined (printVecCompareInstr cfg MI st) \<longleftrightarrow> \<not> legalFamilyA MI)
      \<and> (\<not> legalFamilyA MI \<longrightarrow> printVecCompareInstr cfg MI st = Inr (False, st))
      \<and> (legalFamilyA MI \<longrightarrow>
           printVecCompareInstr cfg MI st =
             returning True (seq [
               emit [CHR 0x09],
               emit (printVPCOMMnemonic cfg MI),
               if TSFlags cfg (Opcode MI) AND FormMask (X86II_consts cfg)
                    = MRMSrcMem (X86II_consts cfg)
               then printxmmwordmem cfg MI 2 else printOperand cfg MI 2,
               emit '', '',
               printOperand cfg MI 1,
               emit '', '',
               printOperand cfg MI 0]) st)
      \<and> (declaredShapeA cfg MI \<longrightarrow>
           (handled (printVecCompareInstr cfg MI st) \<longleftrightarrow> legalFamilyA MI)))
   \<and> (isVPCMPcase (Opcode MI) \<longrightarrow>
        (declined (printVecCompareInstr cfg MI st) \<longleftrightarrow> \<not> legalFamilyB MI)
        \<and> (\<not> legalFamilyB MI \<longrightarrow> printVecCompareInstr cfg MI st = Inr (False, st))
        \<and> (legalFamilyB MI \<longrightarrow>
             printVecCompareInstr cfg MI st =
               returning True
                 (if hasFlag (TSFlags cfg (Opcode MI)) (EVEX_K (X86II_consts cfg)) then
                    seq [emit [CHR 0x09], emit (printVPCMPMnemonic cfg MI),
                         printVPCMPSource cfg MI 3, emit '', '',
                         printOperand cfg MI 2, emit '', '',
                         printOperand cfg MI 0,
                         emit '' {'', printOperand cfg MI 1, emit ''}'']
                  else
                    seq [emit [CHR 0x09], emit (printVPCMPMnemonic cfg MI),
                         printVPCMPSource cfg MI 2, emit '', '',
                         printOperand cfg MI 1, emit '', '',
                         printOperand cfg MI 0]) st)
        \<and> (declaredShapeB cfg MI \<longrightarrow>
             (handled (printVecCompareInstr cfg MI st) \<longleftrightarrow> legalFamilyB MI)))
   \<and> (((isVPCOMcase (Opcode MI) \<and> \<not> legalFamilyA MI)
         \<or> (isVPCMPcase (Opcode MI) \<and> \<not> legalFamilyB MI))
        \<and> AliasTemplate cfg MI = None \<longrightarrow>
        printInst cfg MI Annot STI st =
          seq [emit (printInstFlags cfg MI),
               printInstruction cfg MI,
               runPrintAnnotation cfg Annot] (emitInstComments cfg MI st))"
proof (intro conjI impI)
  assume A: "isVPCOMcase (Opcode MI)"
  show "declined (printVecCompareInstr cfg MI st) \<longleftrightarrow> \<not> legalFamilyA MI"
  proof (cases "legalFamilyA MI")
    case True
    then show ?thesis
      by (simp add: VPCOM_handled [OF A True] returning_True_not_declined)
  next
    case False
    then show ?thesis
      by (simp add: VPCOM_declined [OF A False] declined_False)
  qed
next
  assume "isVPCOMcase (Opcode MI)" and "\<not> legalFamilyA MI"
  then show "printVecCompareInstr cfg MI st = Inr (False, st)"
    by (rule VPCOM_declined)
next
  assume "isVPCOMcase (Opcode MI)" and "legalFamilyA MI"
  then show "printVecCompareInstr cfg MI st =
      returning True (seq [
        emit [CHR 0x09],
        emit (printVPCOMMnemonic cfg MI),
        if TSFlags cfg (Opcode MI) AND FormMask (X86II_consts cfg)
             = MRMSrcMem (X86II_consts cfg)
        then printxmmwordmem cfg MI 2 else printOperand cfg MI 2,
        emit '', '',
        printOperand cfg MI 1,
        emit '', '',
        printOperand cfg MI 0]) st"
    by (rule VPCOM_handled)
next
  assume A: "isVPCOMcase (Opcode MI)" and shape: "declaredShapeA cfg MI"
  show "handled (printVecCompareInstr cfg MI st) \<longleftrightarrow> legalFamilyA MI"
  proof (cases "legalFamilyA MI")
    case True
    then show ?thesis
      by (simp add: VPCOM_handled_shape [OF A True shape])
  next
    case False
    then show ?thesis
      by (simp add: VPCOM_declined [OF A False] not_handled_False)
  qed
next
  assume B: "isVPCMPcase (Opcode MI)"
  show "declined (printVecCompareInstr cfg MI st) \<longleftrightarrow> \<not> legalFamilyB MI"
  proof (cases "legalFamilyB MI")
    case True
    then show ?thesis
      by (simp add: VPCMP_handled [OF B True] returning_True_not_declined)
  next
    case False
    then show ?thesis
      by (simp add: VPCMP_declined [OF B False] declined_False)
  qed
next
  assume "isVPCMPcase (Opcode MI)" and "\<not> legalFamilyB MI"
  then show "printVecCompareInstr cfg MI st = Inr (False, st)"
    by (rule VPCMP_declined)
next
  assume "isVPCMPcase (Opcode MI)" and "legalFamilyB MI"
  then show "printVecCompareInstr cfg MI st =
      returning True
        (if hasFlag (TSFlags cfg (Opcode MI)) (EVEX_K (X86II_consts cfg)) then
           seq [emit [CHR 0x09], emit (printVPCMPMnemonic cfg MI),
                printVPCMPSource cfg MI 3, emit '', '',
                printOperand cfg MI 2, emit '', '',
                printOperand cfg MI 0,
                emit '' {'', printOperand cfg MI 1, emit ''}'']
         else
           seq [emit [CHR 0x09], emit (printVPCMPMnemonic cfg MI),
                printVPCMPSource cfg MI 2, emit '', '',
                printOperand cfg MI 1, emit '', '',
                printOperand cfg MI 0]) st"
    by (rule VPCMP_handled)
next
  assume B: "isVPCMPcase (Opcode MI)" and shape: "declaredShapeB cfg MI"
  show "handled (printVecCompareInstr cfg MI st) \<longleftrightarrow> legalFamilyB MI"
  proof (cases "legalFamilyB MI")
    case True
    then show ?thesis
      by (simp add: VPCMP_handled_shape [OF B True shape])
  next
    case False
    then show ?thesis
      by (simp add: VPCMP_declined [OF B False] not_handled_False)
  qed
next
  assume a: "((isVPCOMcase (Opcode MI) \<and> \<not> legalFamilyA MI)
         \<or> (isVPCMPcase (Opcode MI) \<and> \<not> legalFamilyB MI))
        \<and> AliasTemplate cfg MI = None"
  then have dec: "printVecCompareInstr cfg MI s = Inr (False, s)" for s
    using VPCOM_declined VPCMP_declined by blast
  have opc: "Opcode MI \<noteq> CALLpcrel32 \<and> Opcode MI \<noteq> DATA16_PREFIX"
    using a family_not_exception [of "Opcode MI"] by blast
  have "printDispatch cfg MI = printInstruction cfg MI"
    using a dec by (intro printDispatch_generic) simp_all
  then show "printInst cfg MI Annot STI st =
      seq [emit (printInstFlags cfg MI),
           printInstruction cfg MI,
           runPrintAnnotation cfg Annot] (emitInstComments cfg MI st)"
    using opc by (simp add: printInst_def del: seq.simps)
qed

text \<open>
  \<^verbatim>\<open>VPCOMBri\<close> with immediate 8 and \<^verbatim>\<open>VPCMPDZrri\<close> with immediates 3 and 7 are declined and
  printed through the example template. \<^verbatim>\<open>VPCOMBri\<close> with immediate 7 and \<^verbatim>\<open>VPCMPDZrri\<close>
  with immediate 6 have the declared shape and are handled: the resolver writes the
  mnemonic and the three operands in reverse order.
\<close>

theorem resolver_declines_iff_illegal_witness:
  "printVecCompareInstr exampleConfig
     (exampleInst (VPCOM Elt_B F_ri) [Reg 4, Reg 2, Reg 3, Imm 8]) stateNoComments =
     Inr (False, stateNoComments) \<and>
   printInst exampleConfig
     (exampleInst (VPCOM Elt_B F_ri) [Reg 4, Reg 2, Reg 3, Imm 8]) []
     \<lparr>FeatureBits = {Mode64Bit}\<rparr> stateNoComments =
     Inr (stateNoComments\<lparr>OS := [CHR 0x09] @ ''vpcom'' @ [CHR 0x09]
                               @ ''$8, %r3, %r2, %r4''\<rparr>) \<and>
   printVecCompareInstr exampleConfig
     (exampleInst (VPCMP Elt_D Len_Z F_rri) [Reg 4, Reg 2, Reg 3, Imm 3]) stateNoComments =
     Inr (False, stateNoComments) \<and>
   printInst exampleConfig
     (exampleInst (VPCMP Elt_D Len_Z F_rri) [Reg 4, Reg 2, Reg 3, Imm 7]) []
     \<lparr>FeatureBits = {Mode64Bit}\<rparr> stateNoComments =
     Inr (stateNoComments\<lparr>OS := [CHR 0x09] @ ''vpcmp'' @ [CHR 0x09]
                               @ ''$7, %r3, %r2, %r4''\<rparr>) \<and>
   \<not> declined (printVecCompareInstr exampleConfig
     (exampleInst (VPCOM Elt_B F_ri) [Reg 4, Reg 2, Reg 3, Imm 7]) stateNoComments) \<and>
   \<not> declined (printVecCompareInstr exampleConfig
     (exampleInst (VPCMP Elt_D Len_Z F_rri) [Reg 4, Reg 2, Reg 3, Imm 6]) stateNoComments) \<and>
   declaredShapeA exampleConfig
     (exampleInst (VPCOM Elt_B F_ri) [Reg 4, Reg 2, Reg 3, Imm 7]) \<and>
   declaredShapeB exampleConfig
     (exampleInst (VPCMP Elt_D Len_Z F_rri) [Reg 4, Reg 2, Reg 3, Imm 6]) \<and>
   handled (printVecCompareInstr exampleConfig
     (exampleInst (VPCOM Elt_B F_ri) [Reg 4, Reg 2, Reg 3, Imm 7]) stateNoComments) \<and>
   handled (printVecCompareInstr exampleConfig
     (exampleInst (VPCMP Elt_D Len_Z F_rri) [Reg 4, Reg 2, Reg 3, Imm 6]) stateNoComments) \<and>
   printVecCompareInstr exampleConfig
     (exampleInst (VPCOM Elt_B F_ri) [Reg 4, Reg 2, Reg 3, Imm 7]) stateNoComments =
     Inr (True, stateNoComments\<lparr>OS := [CHR 0x09] @ ''vpcomgtb'' @ [CHR 0x09]
                                     @ ''%r3, %r2, %r4''\<rparr>) \<and>
   printVecCompareInstr exampleConfig
     (exampleInst (VPCMP Elt_D Len_Z F_rri) [Reg 4, Reg 2, Reg 3, Imm 6]) stateNoComments =
     Inr (True, stateNoComments\<lparr>OS := [CHR 0x09] @ ''vpcmpnltd'' @ [CHR 0x09]
                                     @ ''%r3, %r2, %r4''\<rparr>)"
proof -
  have ops: "\<And>opc ops n. n < length ops \<Longrightarrow>
      getOperand (exampleInst opc ops) n = Inr (ops ! n)"
    by (simp add: getOperand_def exampleInst_def)
  have opc: "\<And>opc ops. Opcode (exampleInst opc ops) = opc"
    by (simp add: exampleInst_def)
  have legalA: "\<And>opc ops v. legalFamilyA (exampleInst opc (ops @ [Imm v])) =
      (0 \<le> sint v \<and> sint v \<le> 7)"
    by (simp add: legalFamilyA_def trailingImm_def exampleInst_def)
  have legalB: "\<And>opc ops v. legalFamilyB (exampleInst opc (ops @ [Imm v])) =
      ((0 \<le> sint v \<and> sint v \<le> 2) \<or> (4 \<le> sint v \<and> sint v \<le> 6))"
    by (simp add: legalFamilyB_def trailingImm_def exampleInst_def)
  have cfg: "AliasTemplate exampleConfig = (\<lambda>MI. None)"
    "InstTemplate exampleConfig = exampleTemplate"
    "printInstFlags exampleConfig = (\<lambda>MI. [])"
    "printAnnotation exampleConfig = (\<lambda>Annot attached. ([], []))"
    "getRegisterName exampleConfig = (\<lambda>r. ''r'' @ utostr r)"
    "UseMarkup exampleConfig = False" "PrintImmHex exampleConfig = False"
    "X86II_consts exampleConfig = exampleII" "TSFlags exampleConfig = exampleTSFlags"
    "printVPCOMMnemonic exampleConfig = (\<lambda>MI. ''vpcomgtb'' @ [CHR 0x09])"
    "printVPCMPMnemonic exampleConfig = (\<lambda>MI. ''vpcmpnltd'' @ [CHR 0x09])"
    by (simp_all add: exampleConfig_def)
  have shapeA: "declaredShapeA exampleConfig
      (exampleInst (VPCOM Elt_B F_ri) [Reg 4, Reg 2, Reg 3, Imm 7])"
    by (simp add: declaredShapeA_def plainOperand_def sourceOperand_def ops opc cfg
        exampleII_def)
  have shapeB: "declaredShapeB exampleConfig
      (exampleInst (VPCMP Elt_D Len_Z F_rri) [Reg 4, Reg 2, Reg 3, Imm 6])"
    by (simp add: declaredShapeB_def plainOperand_def sourceOperand_def ops opc cfg
        exampleII_def hasFlag_def)
  note ev = stateNoComments_def cfg markup_def utostr.simps digit_char_def regNameText_def
    emit_def printOperand_Reg printInstruction_def emitInstComments_def runPrintAnnotation_def
    printU8Imm_def formatImm_def formatDec_def
  note run = ev exampleII_def hasFlag_def printVPCMPSource_def returning_def
  have a: "printVecCompareInstr exampleConfig
      (exampleInst (VPCOM Elt_B F_ri) [Reg 4, Reg 2, Reg 3, Imm 8]) stateNoComments =
      Inr (False, stateNoComments)
    \<and> printInst exampleConfig
      (exampleInst (VPCOM Elt_B F_ri) [Reg 4, Reg 2, Reg 3, Imm 8]) []
      \<lparr>FeatureBits = {Mode64Bit}\<rparr> stateNoComments =
      Inr (stateNoComments\<lparr>OS := [CHR 0x09] @ ''vpcom'' @ [CHR 0x09]
                                @ ''$8, %r3, %r2, %r4''\<rparr>)"
    using resolver_declines_iff_illegal
      [of "exampleInst (VPCOM Elt_B F_ri) [Reg 4, Reg 2, Reg 3, Imm 8]"
        exampleConfig stateNoComments "[]" "\<lparr>FeatureBits = {Mode64Bit}\<rparr>"]
      legalA [of _ "[Reg 4, Reg 2, Reg 3]" 8]
    by (simp add: ops opc ev)
  have b: "printVecCompareInstr exampleConfig
      (exampleInst (VPCMP Elt_D Len_Z F_rri) [Reg 4, Reg 2, Reg 3, Imm 3]) stateNoComments =
      Inr (False, stateNoComments)"
    using resolver_declines_iff_illegal
      [of "exampleInst (VPCMP Elt_D Len_Z F_rri) [Reg 4, Reg 2, Reg 3, Imm 3]"
        exampleConfig stateNoComments "[]" "\<lparr>FeatureBits = {Mode64Bit}\<rparr>"]
      legalB [of _ "[Reg 4, Reg 2, Reg 3]" 3]
    by (simp add: opc)
  have c: "printInst exampleConfig
      (exampleInst (VPCMP Elt_D Len_Z F_rri) [Reg 4, Reg 2, Reg 3, Imm 7]) []
      \<lparr>FeatureBits = {Mode64Bit}\<rparr> stateNoComments =
      Inr (stateNoComments\<lparr>OS := [CHR 0x09] @ ''vpcmp'' @ [CHR 0x09]
                                @ ''$7, %r3, %r2, %r4''\<rparr>)"
    using resolver_declines_iff_illegal
      [of "exampleInst (VPCMP Elt_D Len_Z F_rri) [Reg 4, Reg 2, Reg 3, Imm 7]"
        exampleConfig stateNoComments "[]" "\<lparr>FeatureBits = {Mode64Bit}\<rparr>"]
      legalB [of _ "[Reg 4, Reg 2, Reg 3]" 7]
    by (simp add: ops opc ev)
  have f: "printVecCompareInstr exampleConfig
      (exampleInst (VPCOM Elt_B F_ri) [Reg 4, Reg 2, Reg 3, Imm 7]) stateNoComments =
      Inr (True, stateNoComments\<lparr>OS := [CHR 0x09] @ ''vpcomgtb'' @ [CHR 0x09]
                                      @ ''%r3, %r2, %r4''\<rparr>)"
    using resolver_declines_iff_illegal
      [of "exampleInst (VPCOM Elt_B F_ri) [Reg 4, Reg 2, Reg 3, Imm 7]"
        exampleConfig stateNoComments "[]" "\<lparr>FeatureBits = {Mode64Bit}\<rparr>"]
      legalA [of _ "[Reg 4, Reg 2, Reg 3]" 7]
    by (simp add: ops opc run)
  have g: "printVecCompareInstr exampleConfig
      (exampleInst (VPCMP Elt_D Len_Z F_rri) [Reg 4, Reg 2, Reg 3, Imm 6]) stateNoComments =
      Inr (True, stateNoComments\<lparr>OS := [CHR 0x09] @ ''vpcmpnltd'' @ [CHR 0x09]
                                      @ ''%r3, %r2, %r4''\<rparr>)"
    using resolver_declines_iff_illegal
      [of "exampleInst (VPCMP Elt_D Len_Z F_rri) [Reg 4, Reg 2, Reg 3, Imm 6]"
        exampleConfig stateNoComments "[]" "\<lparr>FeatureBits = {Mode64Bit}\<rparr>"]
      legalB [of _ "[Reg 4, Reg 2, Reg 3]" 6]
    by (simp add: ops opc run)
  have d: "\<not> declined (printVecCompareInstr exampleConfig
        (exampleInst (VPCOM Elt_B F_ri) [Reg 4, Reg 2, Reg 3, Imm 7]) stateNoComments)
    \<and> handled (printVecCompareInstr exampleConfig
        (exampleInst (VPCOM Elt_B F_ri) [Reg 4, Reg 2, Reg 3, Imm 7]) stateNoComments)"
    by (simp add: f declined_def handled_def)
  have e: "\<not> declined (printVecCompareInstr exampleConfig
        (exampleInst (VPCMP Elt_D Len_Z F_rri) [Reg 4, Reg 2, Reg 3, Imm 6]) stateNoComments)
    \<and> handled (printVecCompareInstr exampleConfig
        (exampleInst (VPCMP Elt_D Len_Z F_rri) [Reg 4, Reg 2, Reg 3, Imm 6]) stateNoComments)"
    by (simp add: g declined_def handled_def)
  from a b c d e f g shapeA shapeB show ?thesis by simp
qed

subsection \<open>The flag across a whole call\<close>









































end
